theory Spec2Isabelle
  imports Complex_Main "HOL-Library.AList"
begin

section \<open>HTTP headers\<close>

text \<open>
  Go's \<^verbatim>\<open>http.Header\<close> is \<^verbatim>\<open>map[string][]string\<close>. The map is modelled as an
  association list with distinct keys (\<open>map_of\<close> reads it, \<open>AList.update\<close> assigns a
  key, \<open>AList.delete\<close> deletes one), so that every operation computes.
\<close>

type_synonym header = "(string \<times> string list) list"

definition vary :: string where "vary = ''Vary''"
definition acceptEncoding :: string where "acceptEncoding = ''Accept-Encoding''"
definition range_hdr :: string where "range_hdr = ''Range''"
definition gzipEncoding :: string where "gzipEncoding = ''gzip''"

text \<open>
  \<^verbatim>\<open>http.CanonicalHeaderKey\<close> (the standard library's \<^verbatim>\<open>textproto.CanonicalMIMEHeaderKey\<close>):
  a key holding a byte that is not a header token byte is returned unchanged; otherwise the
  first letter and every letter after a dash are put in upper case and all others in lower
  case.
\<close>

definition is_lower :: "char \<Rightarrow> bool" where
  "is_lower c = (97 \<le> (of_char c :: nat) \<and> (of_char c :: nat) \<le> 122)"

definition is_upper :: "char \<Rightarrow> bool" where
  "is_upper c = (65 \<le> (of_char c :: nat) \<and> (of_char c :: nat) \<le> 90)"

definition is_digit :: "char \<Rightarrow> bool" where
  "is_digit c = (48 \<le> (of_char c :: nat) \<and> (of_char c :: nat) \<le> 57)"

definition to_upper :: "char \<Rightarrow> char" where
  "to_upper c = (if is_lower c then char_of ((of_char c :: nat) - 32) else c)"

definition to_lower :: "char \<Rightarrow> char" where
  "to_lower c = (if is_upper c then char_of ((of_char c :: nat) + 32) else c)"

definition validHeaderFieldByte :: "char \<Rightarrow> bool" where
  "validHeaderFieldByte c =
     (is_lower c \<or> is_upper c \<or> is_digit c \<or> c \<in> set ''!#$%&*+-.^_`|~'' \<or> c = CHR 0x27)"

definition canon_byte :: "bool \<Rightarrow> char \<Rightarrow> char" where
  "canon_byte upper c =
     (if upper \<and> is_lower c then to_upper c
      else if \<not> upper \<and> is_upper c then to_lower c
      else c)"

fun canonicalize :: "bool \<Rightarrow> string \<Rightarrow> string" where
  "canonicalize upper [] = []"
| "canonicalize upper (c # cs) =
     canon_byte upper c # canonicalize (canon_byte upper c = CHR ''-'') cs"

definition CanonicalHeaderKey :: "string \<Rightarrow> string" where
  "CanonicalHeaderKey s =
     (if list_all validHeaderFieldByte s then canonicalize True s else s)"

text \<open>\<^verbatim>\<open>h.Values(key)\<close>: the values stored under the canonical key, none when it is absent.\<close>

definition header_Values :: "header \<Rightarrow> string \<Rightarrow> string list" where
  "header_Values h key =
     (case map_of h (CanonicalHeaderKey key) of None \<Rightarrow> [] | Some vs \<Rightarrow> vs)"

text \<open>\<^verbatim>\<open>h.Get(key)\<close>: the first value stored under the canonical key, or the empty string.\<close>

definition header_Get :: "header \<Rightarrow> string \<Rightarrow> string" where
  "header_Get h key =
     (case map_of h (CanonicalHeaderKey key) of
        None \<Rightarrow> []
      | Some vs \<Rightarrow> (case vs of [] \<Rightarrow> [] | v # _ \<Rightarrow> v))"

text \<open>\<^verbatim>\<open>h.Add(key, value)\<close>: appends the value to those of the canonical key.\<close>

definition header_Add :: "header \<Rightarrow> string \<Rightarrow> string \<Rightarrow> header" where
  "header_Add h key v =
     (let k = CanonicalHeaderKey key
      in AList.update k ((case map_of h k of None \<Rightarrow> [] | Some vs \<Rightarrow> vs) @ [v]) h)"

text \<open>\<^verbatim>\<open>h.Del(key)\<close>: deletes the canonical key.\<close>

definition header_Del :: "header \<Rightarrow> string \<Rightarrow> header" where
  "header_Del h key = AList.delete (CanonicalHeaderKey key) h"

text \<open>
  \<^verbatim>\<open>addVaryHeader\<close> (adapter.go, lines 126-134): the loop returns at the first existing
  value of Vary whose canonical form is the canonical form of the value to add; when there
  is none the value is appended.
\<close>

definition addVaryHeader :: "header \<Rightarrow> string \<Rightarrow> header" where
  "addVaryHeader h val =
     (let v' = CanonicalHeaderKey val
      in if list_ex (\<lambda>v. CanonicalHeaderKey v = v') (header_Values h vary) then h
         else header_Add h vary v')"


section \<open>Configuration and options\<close>

text \<open>
  A \<^verbatim>\<open>CompressorProvider\<close> is an external capability; the adapter only stores it, so it is
  an opaque handle here. \<^verbatim>\<open>codings\<close> is \<^verbatim>\<open>map[string]float64\<close> (adapter.go, line 26):
  the adapter only passes it on, and the negotiation only compares the quality values, so
  they are rationals here. \<^verbatim>\<open>PreferType\<close> and \<^verbatim>\<open>parsedContentType\<close> are declared outside
  adapter.go; their shape is taken from the specification.
\<close>

type_synonym CompressorProvider = nat

type_synonym codings = "(string \<times> rat) list"

datatype PreferType = PreferServer | PreferClient

type_synonym parsedContentType = "string \<times> (string \<times> string) list"

datatype error =
    ErrMinSizeNegative int
  | ErrProvider string
  | ErrWrap string error

record comp =
  comp_provider :: CompressorProvider
  priority :: int

type_synonym comps = "(string \<times> comp) list"

record config =
  minSize :: int
  contentTypes :: "parsedContentType list"
  blacklist :: bool
  "prefer" :: PreferType
  compressor :: comps

text \<open>
  \<^verbatim>\<open>type Option func(c *config) error\<close>: an option receives the configuration and either
  fails or returns it updated.
\<close>

type_synonym Option = "config \<Rightarrow> error + config"

definition DefaultMinSize :: int where "DefaultMinSize = 200"

definition MinSize :: "int \<Rightarrow> Option" where
  "MinSize sz c =
     (if sz < 0 then Inl (ErrMinSizeNegative sz) else Inr (c\<lparr>minSize := sz\<rparr>))"

definition errorOption :: "error \<Rightarrow> Option" where
  "errorOption err c = Inl err"

text \<open>
  Modelled from the spec: \<^verbatim>\<open>Compressor(contentEncoding, priority, provider)\<close> is called by
  adapter.go and defined outside it. The specification describes it as
  \<^verbatim>\<open>register(name, provider, priority)\<close>, where a duplicate registration overwrites,
  the later one winning.
\<close>

definition Compressor :: "string \<Rightarrow> int \<Rightarrow> CompressorProvider \<Rightarrow> Option" where
  "Compressor contentEncoding prio g c =
     Inr (c\<lparr>compressor :=
            AList.update contentEncoding \<lparr>comp_provider = g, priority = prio\<rparr> (compressor c)\<rparr>)"

text \<open>
  Modelled from the spec: the coding names \<^verbatim>\<open>zlib.Encoding\<close>, \<^verbatim>\<open>brotli.Encoding\<close> and
  \<^verbatim>\<open>zstd.Encoding\<close> are constants of the contrib packages; the specification names the
  codings "deflate", "br" and "zstd".
\<close>

definition zlib_Encoding :: string where "zlib_Encoding = ''deflate''"
definition brotli_Encoding :: string where "brotli_Encoding = ''br''"
definition zstd_Encoding :: string where "zstd_Encoding = ''zstd''"

definition DeflateCompressor :: "CompressorProvider \<Rightarrow> Option" where
  "DeflateCompressor g = Compressor zlib_Encoding (-300) g"

definition GzipCompressor :: "CompressorProvider \<Rightarrow> Option" where
  "GzipCompressor g = Compressor gzipEncoding (-200) g"

definition BrotliCompressor :: "CompressorProvider \<Rightarrow> Option" where
  "BrotliCompressor b = Compressor brotli_Encoding (-100) b"

definition ZstandardCompressor :: "CompressorProvider \<Rightarrow> Option" where
  "ZstandardCompressor b = Compressor zstd_Encoding (-50) b"

text \<open>
  The constructors and default levels of the contrib packages (\<^verbatim>\<open>zlib.New\<close>,
  \<^verbatim>\<open>cgzip.New\<close>, \<^verbatim>\<open>brotli.New\<close>, \<^verbatim>\<open>zstd.New\<close>) are outside adapter.go: they are
  parameters of the model, each returning a provider or an error.
\<close>

record contrib =
  zlib_New :: "int \<Rightarrow> error + CompressorProvider"
  zlib_DefaultCompression :: int
  cgzip_New :: "int \<Rightarrow> error + CompressorProvider"
  gzip_DefaultCompression :: int
  brotli_New :: "int \<Rightarrow> error + CompressorProvider"
  brotli_DefaultCompression :: int
  zstd_New :: "error + CompressorProvider"

definition DeflateCompressionLevel :: "contrib \<Rightarrow> int \<Rightarrow> Option" where
  "DeflateCompressionLevel L level =
     (case zlib_New L level of Inl err \<Rightarrow> errorOption err | Inr c \<Rightarrow> DeflateCompressor c)"

definition NewDefaultGzipCompressor :: "contrib \<Rightarrow> int \<Rightarrow> error + CompressorProvider" where
  "NewDefaultGzipCompressor L level = cgzip_New L level"

definition GzipCompressionLevel :: "contrib \<Rightarrow> int \<Rightarrow> Option" where
  "GzipCompressionLevel L level =
     (case NewDefaultGzipCompressor L level of
        Inl err \<Rightarrow> errorOption err
      | Inr c \<Rightarrow> GzipCompressor c)"

definition BrotliCompressionLevel :: "contrib \<Rightarrow> int \<Rightarrow> Option" where
  "BrotliCompressionLevel L level =
     (case brotli_New L level of Inl err \<Rightarrow> errorOption err | Inr c \<Rightarrow> BrotliCompressor c)"

definition defaultZstandardCompressor :: "contrib \<Rightarrow> Option" where
  "defaultZstandardCompressor L =
     (case zstd_New L of
        Inl err \<Rightarrow> errorOption (ErrWrap ''initializing zstd compressor'' err)
      | Inr zstdComp \<Rightarrow> ZstandardCompressor zstdComp)"

text \<open>The loop of \<^verbatim>\<open>Adapter\<close> over its options (lines 52-57): the first error ends it.\<close>

fun applyOptions :: "Option list \<Rightarrow> config \<Rightarrow> error + config" where
  "applyOptions [] c = Inr c"
| "applyOptions (opt # opts) c =
     (case opt c of Inl err \<Rightarrow> Inl err | Inr c' \<Rightarrow> applyOptions opts c')"

text \<open>The configuration \<^verbatim>\<open>Adapter\<close> starts from (lines 48-51): the other fields are zero.\<close>

definition initial_config :: config where
  "initial_config =
     \<lparr>minSize = 0, contentTypes = [], blacklist = False, prefer = PreferServer,
      compressor = []\<rparr>"

definition build_config :: "Option list \<Rightarrow> error + config" where
  "build_config opts = applyOptions opts initial_config"

text \<open>The defaults of \<^verbatim>\<open>DefaultAdapter\<close> (lines 143-149).\<close>

definition defaults :: "contrib \<Rightarrow> Option list" where
  "defaults L =
     [DeflateCompressionLevel L (zlib_DefaultCompression L),
      GzipCompressionLevel L (gzip_DefaultCompression L),
      BrotliCompressionLevel L (brotli_DefaultCompression L),
      defaultZstandardCompressor L,
      MinSize DefaultMinSize]"


section \<open>Negotiation\<close>

text \<open>
  Modelled from the spec: \<^verbatim>\<open>parseEncodings\<close> is called by adapter.go and defined outside it.
  The specification (4.2, step 1) splits the header value at commas; each token is a coding
  name, optionally followed by \<^verbatim>\<open>;q=<value>\<close>; the quality lies in [0,1] and is 1.0 when
  it is missing or malformed; names are compared case-insensitively, so they are stored in
  lower case. A name given twice keeps its last quality, as an assignment to the map does.
\<close>

fun split_on :: "char \<Rightarrow> string \<Rightarrow> string list" where
  "split_on d [] = [[]]"
| "split_on d (c # cs) =
     (if c = d then [] # split_on d cs
      else (case split_on d cs of [] \<Rightarrow> [[c]] | t # ts \<Rightarrow> (c # t) # ts))"

definition is_space :: "char \<Rightarrow> bool" where
  "is_space c = (c = CHR '' '' \<or> c = CHR 0x09)"

definition trim :: "string \<Rightarrow> string" where
  "trim s = rev (dropWhile is_space (rev (dropWhile is_space s)))"

definition digit_val :: "char \<Rightarrow> nat" where
  "digit_val c = (of_char c :: nat) - 48"

definition digits_val :: "string \<Rightarrow> nat" where
  "digits_val ds = foldl (\<lambda>n c. 10 * n + digit_val c) 0 ds"

text \<open>A decimal numeral \<^verbatim>\<open>d+\<close> or \<^verbatim>\<open>d+.d*\<close> or \<^verbatim>\<open>.d+\<close> with a value in [0,1].\<close>

definition parse_quality :: "string \<Rightarrow> rat option" where
  "parse_quality v =
     (let ip = takeWhile is_digit v; rest = dropWhile is_digit v
      in case rest of
           [] \<Rightarrow> (if ip = [] then None
                  else let q = of_nat (digits_val ip)
                       in if q \<le> 1 then Some q else None)
         | c # fp \<Rightarrow>
             (if c = CHR ''.'' \<and> list_all is_digit fp \<and> (ip \<noteq> [] \<or> fp \<noteq> [])
              then let q = of_nat (digits_val ip)
                         + of_nat (digits_val fp) / of_nat (10 ^ length fp)
                   in if q \<le> 1 then Some q else None
              else None))"

definition parse_entry :: "string \<Rightarrow> (string \<times> rat) option" where
  "parse_entry tok =
     (let name = map to_lower (trim (takeWhile (\<lambda>c. c \<noteq> CHR '';'') tok));
          param = trim (drop 1 (dropWhile (\<lambda>c. c \<noteq> CHR '';'') tok))
      in if name = [] then None
         else if map to_lower (take 2 param) = ''q=''
         then (case parse_quality (trim (drop 2 param)) of
                 None \<Rightarrow> Some (name, 1)
               | Some q \<Rightarrow> Some (name, q))
         else Some (name, 1))"

definition parseEncodings :: "string \<Rightarrow> codings" where
  "parseEncodings s =
     foldl (\<lambda>acc tok. case parse_entry tok of
                         None \<Rightarrow> acc
                       | Some (name, q) \<Rightarrow> AList.update name q acc)
           [] (split_on CHR '','' s)"

text \<open>
  Modelled from the spec: the resolved client quality of a registered coding (4.2, step 2)
  is the quality it is listed with; a coding that is not listed adopts the quality of the
  wildcard \<^verbatim>\<open>*\<close>; a coding neither listed nor covered by a wildcard is not accepted.
\<close>

definition resolved_quality :: "codings \<Rightarrow> string \<Rightarrow> rat" where
  "resolved_quality accept name =
     (case map_of accept (map to_lower name) of
        Some q \<Rightarrow> q
      | None \<Rightarrow> (case map_of accept ''*'' of Some q \<Rightarrow> q | None \<Rightarrow> 0))"

text \<open>
  Modelled from the spec: \<^verbatim>\<open>acceptedCompression\<close> is called by adapter.go and defined
  outside it. The candidate set (4.2, steps 2-4) holds the registered codings whose resolved
  quality is positive; identity is never a candidate.
\<close>

definition acceptedCompression :: "codings \<Rightarrow> comps \<Rightarrow> string list" where
  "acceptedCompression accept cs =
     filter (\<lambda>name. map to_lower name \<noteq> ''identity'' \<and> 0 < resolved_quality accept name)
            (map fst cs)"

text \<open>
  Modelled from the spec: the order of the candidates (4.2, step 5). Under
  \<^verbatim>\<open>PreferServer\<close> a candidate comes before another when its server priority is higher;
  equal priorities are ordered by descending client quality, then by name. Under
  \<^verbatim>\<open>PreferClient\<close> quality comes first, then priority, then the name.
\<close>

fun str_le :: "string \<Rightarrow> string \<Rightarrow> bool" where
  "str_le [] ys = True"
| "str_le (x # xs) [] = False"
| "str_le (x # xs) (y # ys) =
     ((of_char x :: nat) < of_char y \<or> (x = y \<and> str_le xs ys))"

definition priority_of :: "comps \<Rightarrow> string \<Rightarrow> int" where
  "priority_of cs name = (case map_of cs name of None \<Rightarrow> 0 | Some c \<Rightarrow> priority c)"

definition comes_before :: "PreferType \<Rightarrow> codings \<Rightarrow> comps \<Rightarrow> string \<Rightarrow> string \<Rightarrow> bool" where
  "comes_before p accept cs a b =
     (let pa = priority_of cs a; pb = priority_of cs b;
          qa = resolved_quality accept a; qb = resolved_quality accept b
      in case p of
           PreferServer \<Rightarrow> pb < pa \<or> (pa = pb \<and> (qb < qa \<or> (qa = qb \<and> str_le a b)))
         | PreferClient \<Rightarrow> qb < qa \<or> (qa = qb \<and> (pb < pa \<or> (pa = pb \<and> str_le a b))))"

fun insert_by :: "('a \<Rightarrow> 'a \<Rightarrow> bool) \<Rightarrow> 'a \<Rightarrow> 'a list \<Rightarrow> 'a list" where
  "insert_by le x [] = [x]"
| "insert_by le x (y # ys) = (if le x y then x # y # ys else y # insert_by le x ys)"

definition order_candidates :: "PreferType \<Rightarrow> codings \<Rightarrow> comps \<Rightarrow> string list \<Rightarrow> string list" where
  "order_candidates p accept cs names = foldr (insert_by (comes_before p accept cs)) names []"

definition negotiate :: "config \<Rightarrow> string \<Rightarrow> string list" where
  "negotiate c hdr =
     (let accept = parseEncodings hdr
      in order_candidates (prefer c) accept (compressor c)
           (acceptedCompression accept (compressor c)))"


section \<open>The middleware\<close>

text \<open>
  A response writer handed to a handler is the server's own writer (which may or may not
  implement \<^verbatim>\<open>http.CloseNotifier\<close>), a pointer to a \<^verbatim>\<open>compressWriter\<close>, or a
  \<^verbatim>\<open>compressWriterWithCloseNotify\<close> around such a pointer. Pointers are addresses into a
  store of wrappers.
\<close>

datatype writer = Underlying bool | Wrapped nat | WrappedCloseNotify nat

fun implementsCloseNotifier :: "writer \<Rightarrow> bool" where
  "implementsCloseNotifier (Underlying b) = b"
| "implementsCloseNotifier (Wrapped a) = False"
| "implementsCloseNotifier (WrappedCloseNotify a) = True"

datatype pool_ref = BufPool

text \<open>
  The struct \<^verbatim>\<open>compressWriter\<close> is declared outside adapter.go. The first five fields are
  the ones adapter.go sets (lines 96-102). Modelled from the spec: the remaining fields are
  those the specification lists for the wrapper state (headers-sent flag, decision flag,
  accumulation buffer, active compressing writer, byte counter).
\<close>

record compressWriter =
  cw_ResponseWriter :: "writer option"
  cw_config :: config
  cw_accept :: codings
  cw_common :: "string list"
  cw_pool :: "pool_ref option"
  cw_headersSent :: bool
  cw_decided :: bool
  cw_buf :: "nat list"
  cw_active :: "CompressorProvider option"
  cw_count :: int

text \<open>
  The zero value of \<^verbatim>\<open>config\<close>; the zero value of \<^verbatim>\<open>PreferType\<close> is taken to be its first
  constant.
\<close>

definition zero_config :: config where
  "zero_config =
     \<lparr>minSize = 0, contentTypes = [], blacklist = False, prefer = PreferServer,
      compressor = []\<rparr>"

text \<open>The zero value \<^verbatim>\<open>compressWriter{}\<close>.\<close>

definition zero_compressWriter :: compressWriter where
  "zero_compressWriter =
     \<lparr>cw_ResponseWriter = None, cw_config = zero_config, cw_accept = [], cw_common = [],
      cw_pool = None, cw_headersSent = False, cw_decided = False, cw_buf = [],
      cw_active = None, cw_count = 0\<rparr>"

text \<open>
  The state a request runs in: the header map of the response writer, the header map of
  the request, the store of wrappers, the addresses held by \<^verbatim>\<open>writerPool\<close>, and what
  \<^verbatim>\<open>sync.Pool\<close> will answer to the next \<^verbatim>\<open>Get\<close> (a pool may return any item it holds, or
  nil).
\<close>

record world =
  resp_header :: header
  req_header :: header
  heap :: "compressWriter list"
  writerPool :: "nat list"
  poolChoice :: "nat option"

datatype 'a outcome = Return 'a | Panic string

text \<open>
  A handler receives the writer and runs on the state; it returns or panics. The
  \<^verbatim>\<open>Close\<close> method of \<^verbatim>\<open>compressWriter\<close> is defined outside adapter.go: it is a
  parameter, a function of the wrapper's address that returns an error or nil, or panics.
\<close>

type_synonym handler = "writer \<Rightarrow> world \<Rightarrow> unit outcome \<times> world"

type_synonym closer = "nat \<Rightarrow> world \<Rightarrow> error option outcome \<times> world"

definition pool_Get :: "world \<Rightarrow> nat option \<times> world" where
  "pool_Get s =
     (case poolChoice s of
        None \<Rightarrow> (None, s)
      | Some i \<Rightarrow>
          (if i < length (writerPool s)
           then (Some (writerPool s ! i),
                 s\<lparr>writerPool := take i (writerPool s) @ drop (Suc i) (writerPool s)\<rparr>)
           else (None, s)))"

definition pool_Put :: "nat \<Rightarrow> world \<Rightarrow> world" where
  "pool_Put a s = s\<lparr>writerPool := a # writerPool s\<rparr>"

text \<open>Lines 92-95: a wrapper from the pool, or a new one when the pool gives nil.\<close>

definition acquire :: "world \<Rightarrow> nat \<times> world" where
  "acquire s =
     (case pool_Get s of
        (Some a, s') \<Rightarrow> (a, s')
      | (None, s') \<Rightarrow> (length (heap s'), s'\<lparr>heap := heap s' @ [zero_compressWriter]\<rparr>))"

text \<open>
  What the middleware itself does is recorded as a list of events beside the state, which
  neither the handler nor \<^verbatim>\<open>Close\<close> can touch.
\<close>

datatype event = EvServe writer | EvClose nat | EvReset nat | EvPut nat

text \<open>
  Lines 72-119, up to the call of the handler: the writer the handler is given, the address
  of the wrapper when one was acquired, and the state the handler starts in.
\<close>

definition enter :: "config \<Rightarrow> writer \<Rightarrow> world \<Rightarrow> writer \<times> nat option \<times> world" where
  "enter c w s0 =
     (let s1 = s0\<lparr>resp_header := addVaryHeader (resp_header s0) acceptEncoding\<rparr>;
          accept = parseEncodings (header_Get (req_header s1) acceptEncoding);
          common = acceptedCompression accept (compressor c)
      in if length common = 0 then (w, None, s1)
         else
           (let s2 = s1\<lparr>req_header := header_Del (req_header s1) range_hdr\<rparr>;
                (a, s3) = acquire s2;
                s4 = s3\<lparr>heap := (heap s3)
                        [a := zero_compressWriter
                                \<lparr>cw_ResponseWriter := Some w, cw_config := c,
                                 cw_accept := accept, cw_common := common,
                                 cw_pool := Some BufPool\<rparr>]\<rparr>
            in (if implementsCloseNotifier w then WrappedCloseNotify a else Wrapped a,
                Some a, s4)))"

text \<open>
  The deferred function (lines 103-113). It runs when the handler returns and when it
  panics. When \<^verbatim>\<open>Close\<close> returns, its error is dropped, the wrapper is overwritten with
  the zero value and put into the pool, and the handler's outcome stands; when \<^verbatim>\<open>Close\<close>
  panics, the rest of the deferred function does not run.
\<close>

definition deferred ::
  "closer \<Rightarrow> nat \<Rightarrow> unit outcome \<Rightarrow> world \<Rightarrow> unit outcome \<times> world \<times> event list" where
  "deferred cwClose a r s =
     (case cwClose a s of
        (Panic p, s') \<Rightarrow> (Panic p, s', [EvClose a])
      | (Return err, s') \<Rightarrow>
          (r, pool_Put a (s'\<lparr>heap := (heap s')[a := zero_compressWriter]\<rparr>),
           [EvClose a, EvReset a, EvPut a]))"

definition serve ::
  "closer \<Rightarrow> config \<Rightarrow> handler \<Rightarrow> writer \<Rightarrow> world \<Rightarrow> unit outcome \<times> world \<times> event list" where
  "serve cwClose c h w s0 =
     (case enter c w s0 of
        (w', None, s) \<Rightarrow> (case h w' s of (r, s') \<Rightarrow> (r, s', [EvServe w']))
      | (w', Some a, s) \<Rightarrow>
          (case h w' s of
             (r, s') \<Rightarrow>
               (case deferred cwClose a r s' of
                  (r', s'', evs) \<Rightarrow> (r', s'', EvServe w' # evs))))"

definition ServeHTTP :: "closer \<Rightarrow> config \<Rightarrow> handler \<Rightarrow> handler" where
  "ServeHTTP cwClose c h w s0 = (case serve cwClose c h w s0 of (r, s, evs) \<Rightarrow> (r, s))"

text \<open>
  \<^verbatim>\<open>Adapter\<close> (lines 47-124): an error of an option is returned with no middleware; with no
  compressor the middleware returns the handler it is given; otherwise it wraps it.
\<close>

definition Adapter :: "closer \<Rightarrow> Option list \<Rightarrow> error + (handler \<Rightarrow> handler)" where
  "Adapter cwClose opts =
     (case applyOptions opts initial_config of
        Inl err \<Rightarrow> Inl err
      | Inr c \<Rightarrow>
          (if length (compressor c) = 0 then Inr (\<lambda>h. h)
           else Inr (\<lambda>h. ServeHTTP cwClose c h)))"

definition DefaultAdapter ::
  "closer \<Rightarrow> contrib \<Rightarrow> Option list \<Rightarrow> error + (handler \<Rightarrow> handler)" where
  "DefaultAdapter cwClose L opts = Adapter cwClose (defaults L @ opts)"


section \<open>Derived notions and sample inputs\<close>

text \<open>
  The four built-in codings with their priorities, for given providers, in the order in
  which the defaults of \<^verbatim>\<open>DefaultAdapter\<close> register them.
\<close>

definition four_codings ::
  "CompressorProvider \<Rightarrow> CompressorProvider \<Rightarrow> CompressorProvider \<Rightarrow> CompressorProvider \<Rightarrow> comps" where
  "four_codings p1 p2 p3 p4 =
     [(''deflate'', \<lparr>comp_provider = p1, priority = - 300\<rparr>),
      (''gzip'', \<lparr>comp_provider = p2, priority = - 200\<rparr>),
      (''br'', \<lparr>comp_provider = p3, priority = - 100\<rparr>),
      (''zstd'', \<lparr>comp_provider = p4, priority = - 50\<rparr>)]"

text \<open>An option that leaves the minimum size as it finds it.\<close>

definition keeps_minSize :: "Option \<Rightarrow> bool" where
  "keeps_minSize opt = (\<forall>c c'. opt c = Inr c' \<longrightarrow> minSize c' = minSize c)"

text \<open>The number of values of Vary that the check of \<^verbatim>\<open>addVaryHeader\<close> takes for the value.\<close>

definition vary_count :: "header \<Rightarrow> string \<Rightarrow> nat" where
  "vary_count h val =
     length (filter (\<lambda>v. CanonicalHeaderKey v = CanonicalHeaderKey val) (header_Values h vary))"

text \<open>The candidate set of a request, as \<^verbatim>\<open>Adapter\<close> computes it (lines 74-75).\<close>

definition candidates :: "config \<Rightarrow> world \<Rightarrow> string list" where
  "candidates c s =
     acceptedCompression (parseEncodings (header_Get (req_header s) acceptEncoding))
       (compressor c)"

text \<open>
  The pool holds distinct addresses of wrappers that exist and are zero.
\<close>

definition pool_zeroed :: "world \<Rightarrow> bool" where
  "pool_zeroed s =
     (distinct (writerPool s) \<and>
      list_all (\<lambda>a. a < length (heap s) \<and> heap s ! a = zero_compressWriter) (writerPool s))"

text \<open>The number of calls of \<^verbatim>\<open>Close\<close> among the events of the middleware.\<close>

fun is_close :: "event \<Rightarrow> bool" where
  "is_close (EvClose a) = True"
| "is_close e = False"

definition close_count :: "event list \<Rightarrow> nat" where
  "close_count evs = length (filter is_close evs)"

text \<open>The wrapper a writer points to, if it is one.\<close>

fun wrapper_of :: "writer \<Rightarrow> nat option" where
  "wrapper_of (Underlying b) = None"
| "wrapper_of (Wrapped a) = Some a"
| "wrapper_of (WrappedCloseNotify a) = Some a"

text \<open>
  A step that writes to no wrapper but its own: \<^verbatim>\<open>writerPool\<close> is private to the
  middleware, so it holds the same addresses after the step; no wrapper disappears; and
  every wrapper other than \<open>own\<close> is as it was. The step may change its own wrapper and
  the headers as it likes.
\<close>

definition touches_only :: "nat option \<Rightarrow> world \<Rightarrow> world \<Rightarrow> bool" where
  "touches_only own s s' =
     (writerPool s' = writerPool s \<and> length (heap s) \<le> length (heap s') \<and>
      (\<forall>b < length (heap s). Some b \<noteq> own \<longrightarrow> heap s' ! b = heap s ! b))"

text \<open>A handler writes through the writer it is given only.\<close>

definition handler_frame :: "handler \<Rightarrow> bool" where
  "handler_frame h = (\<forall>w s. touches_only (wrapper_of w) s (snd (h w s)))"

text \<open>\<^verbatim>\<open>Close\<close> changes the wrapper it is called on only.\<close>

definition closer_frame :: "closer \<Rightarrow> bool" where
  "closer_frame cl = (\<forall>a s. touches_only (Some a) s (snd (cl a s)))"



text \<open>
  What the deferred function makes of the handler's result (lines 103-113), without the
  events: \<^verbatim>\<open>Close\<close> runs on the state the handler leaves.
\<close>

definition after_handler :: "closer \<Rightarrow> nat \<Rightarrow> unit outcome \<times> world \<Rightarrow> unit outcome \<times> world" where
  "after_handler cl a rs =
     (case cl a (snd rs) of
        (Panic p, s') \<Rightarrow> (Panic p, s')
      | (Return err, s') \<Rightarrow>
          (fst rs, pool_Put a (s'\<lparr>heap := (heap s')[a := zero_compressWriter]\<rparr>)))"

definition sample_contrib :: contrib where
  "sample_contrib =
     \<lparr>zlib_New = (\<lambda>level. if - 2 \<le> level \<and> level \<le> 9 then Inr 1 else Inl (ErrProvider ''level'')),
      zlib_DefaultCompression = - 1,
      cgzip_New = (\<lambda>level. if - 2 \<le> level \<and> level \<le> 9 then Inr 2 else Inl (ErrProvider ''level'')),
      gzip_DefaultCompression = - 1,
      brotli_New = (\<lambda>level. if 0 \<le> level \<and> level \<le> 11 then Inr 3 else Inl (ErrProvider ''quality'')),
      brotli_DefaultCompression = 3,
      zstd_New = Inr 4\<rparr>"

definition sample_closer :: closer where
  "sample_closer a s = (Return None, s)"

definition idle_handler :: handler where
  "idle_handler w s = (Return (), s)"

definition gzip_config :: config where
  "gzip_config =
     \<lparr>minSize = 0, contentTypes = [], blacklist = False, prefer = PreferServer,
      compressor = [(''gzip'', \<lparr>comp_provider = 2, priority = - 200\<rparr>)]\<rparr>"

definition builtin_config :: config where
  "builtin_config =
     \<lparr>minSize = 200, contentTypes = [], blacklist = False, prefer = PreferServer,
      compressor =
        [(''deflate'', \<lparr>comp_provider = 1, priority = - 300\<rparr>),
         (''gzip'', \<lparr>comp_provider = 2, priority = - 200\<rparr>),
         (''br'', \<lparr>comp_provider = 3, priority = - 100\<rparr>),
         (''zstd'', \<lparr>comp_provider = 4, priority = - 50\<rparr>)]\<rparr>"

definition sample_world :: "header \<Rightarrow> header \<Rightarrow> world" where
  "sample_world resp req =
     \<lparr>resp_header = resp, req_header = req, heap = [], writerPool = [], poolChoice = None\<rparr>"

text \<open>A state whose pool holds one zeroed wrapper, which the next \<^verbatim>\<open>Get\<close> returns.\<close>

definition pooled_world :: "header \<Rightarrow> header \<Rightarrow> world" where
  "pooled_world resp req =
     \<lparr>resp_header = resp, req_header = req, heap = [zero_compressWriter], writerPool = [0],
      poolChoice = Some 0\<rparr>"

text \<open>
  A handler that reports the Range header it sees in a response header; a handler that
  writes through its wrapper and then panics; a handler that adds a Vary value of its own;
  a \<^verbatim>\<open>Close\<close> that records a decision in the wrapper and leaves a mark in the response
  headers each time it runs.
\<close>

definition range_probe :: handler where
  "range_probe w s =
     (Return (),
      s\<lparr>resp_header := header_Add (resp_header s) ''X-Range-Seen''
                         (header_Get (req_header s) range_hdr)\<rparr>)"

definition writing_handler :: handler where
  "writing_handler w s =
     (case wrapper_of w of
        None \<Rightarrow> (Panic ''handler'', s)
      | Some a \<Rightarrow>
          (Panic ''handler'',
           s\<lparr>resp_header := header_Add (resp_header s) ''Content-Type'' ''text/plain'',
             heap := (heap s)[a := (heap s ! a)\<lparr>cw_buf := [104, 105], cw_count := 2\<rparr>]\<rparr>))"


definition recording_closer :: closer where
  "recording_closer a s =
     (Return None,
      s\<lparr>resp_header := header_Add (resp_header s) ''X-Closed'' ''1'',
        heap := (heap s)[a := (heap s ! a)\<lparr>cw_decided := True\<rparr>]\<rparr>)"


section \<open>Construction of the middleware\<close>

lemma applyOptions_append:
  "applyOptions (xs @ ys) c =
     (case applyOptions xs c of Inl err \<Rightarrow> Inl err | Inr c' \<Rightarrow> applyOptions ys c')"
  by (induction xs arbitrary: c) (auto split: sum.splits)

lemma MinSize_negative: "n < 0 \<Longrightarrow> MinSize n c = Inl (ErrMinSizeNegative n)"
  by (simp add: MinSize_def)

lemma errorOption_fails: "errorOption err c = Inl err"
  by (simp add: errorOption_def)

text \<open>
  Claim C1. When the options lead to a configuration with no registered coding, the
  middleware that \<^verbatim>\<open>Adapter\<close> returns is the identity: it returns every handler unchanged,
  so a request runs the handler alone, with no header change, no wrapper and no pool.
\<close>

theorem adapter_identity_without_codings:
  assumes "build_config opts = Inr c" and "compressor c = []"
  shows "\<exists>mw. Adapter cl opts = Inr mw \<and> (\<forall>h. mw h = h)"
  using assms by (simp add: Adapter_def build_config_def)

theorem adapter_identity_without_codings_witness:
  "build_config [MinSize 5] = Inr (initial_config\<lparr>minSize := 5\<rparr>)
   \<and> compressor (initial_config\<lparr>minSize := 5\<rparr>) = []
   \<and> (\<exists>mw. Adapter sample_closer [MinSize 5] = Inr mw \<and> (\<forall>h. mw h = h))"
proof -
  have b: "build_config [MinSize 5] = Inr (initial_config\<lparr>minSize := 5\<rparr>)"
    by (simp add: build_config_def MinSize_def)
  have e: "compressor (initial_config\<lparr>minSize := 5\<rparr>) = []"
    by (simp add: initial_config_def)
  show ?thesis
    using b e adapter_identity_without_codings [OF b e, of sample_closer] by simp
qed

text \<open>
  Claim C5. Construction fails atomically: when the options before \<open>opt\<close> succeed and
  \<open>opt\<close> returns an error, \<^verbatim>\<open>Adapter\<close> returns that error and no middleware (the result
  is the left injection, which carries no middleware), whatever options follow: they are
  not applied. \<^verbatim>\<open>MinSize\<close> with a negative argument and \<^verbatim>\<open>errorOption\<close> are such failing
  options (\<open>MinSize_negative\<close>, \<open>errorOption_fails\<close>).
\<close>

theorem adapter_fails_atomically:
  assumes "applyOptions pre initial_config = Inr c" and "opt c = Inl err"
  shows "Adapter cl (pre @ opt # post) = Inl err"
  using assms by (simp add: Adapter_def applyOptions_append)

theorem adapter_fails_atomically_witness:
  "applyOptions [GzipCompressor 2] initial_config = Inr gzip_config
   \<and> MinSize (- 1) gzip_config = Inl (ErrMinSizeNegative (- 1))
   \<and> Adapter sample_closer ([GzipCompressor 2] @ MinSize (- 1) # [errorOption (ErrProvider ''late'')])
       = Inl (ErrMinSizeNegative (- 1))"
proof -
  have p: "applyOptions [GzipCompressor 2] initial_config = Inr gzip_config"
    by (simp add: GzipCompressor_def Compressor_def initial_config_def gzip_config_def
        gzipEncoding_def)
  have f: "MinSize (- 1) gzip_config = Inl (ErrMinSizeNegative (- 1))"
    by (simp add: MinSize_def)
  show ?thesis
    using p f adapter_fails_atomically [where pre = "[GzipCompressor 2]" and c = gzip_config
        and opt = "MinSize (- 1)" and err = "ErrMinSizeNegative (- 1)" and cl = sample_closer
        and post = "[errorOption (ErrProvider ''late'')]"]
    by simp
qed


lemma Compressor_keeps_minSize: "keeps_minSize (Compressor name prio g)"
  by (auto simp: keeps_minSize_def Compressor_def)

lemma errorOption_keeps_minSize: "keeps_minSize (errorOption err)"
  by (simp add: keeps_minSize_def errorOption_def)

lemma builtin_keep_minSize:
  "keeps_minSize (DeflateCompressor g)" "keeps_minSize (GzipCompressor g)"
  "keeps_minSize (BrotliCompressor g)" "keeps_minSize (ZstandardCompressor g)"
  by (simp_all add: DeflateCompressor_def GzipCompressor_def BrotliCompressor_def
      ZstandardCompressor_def Compressor_keeps_minSize)

lemma level_options_keep_minSize:
  "keeps_minSize (DeflateCompressionLevel L l)" "keeps_minSize (GzipCompressionLevel L l)"
  "keeps_minSize (BrotliCompressionLevel L l)" "keeps_minSize (defaultZstandardCompressor L)"
  by (simp_all add: DeflateCompressionLevel_def GzipCompressionLevel_def
      BrotliCompressionLevel_def defaultZstandardCompressor_def builtin_keep_minSize
      errorOption_keeps_minSize split: sum.splits)

lemma applyOptions_keeps_minSize:
  "\<forall>opt\<in>set opts. keeps_minSize opt \<Longrightarrow> applyOptions opts c = Inr c' \<Longrightarrow> minSize c' = minSize c"
proof (induction opts arbitrary: c)
  case Nil
  then show ?case by simp
next
  case (Cons opt opts)
  from Cons.prems(2) obtain c1 where s: "opt c = Inr c1" and r: "applyOptions opts c1 = Inr c'"
    by (auto split: sum.splits)
  from Cons.prems(1) s have "minSize c1 = minSize c"
    by (auto simp: keeps_minSize_def)
  moreover from Cons.IH [OF _ r] Cons.prems(1) have "minSize c' = minSize c1" by simp
  ultimately show ?case by simp
qed

lemma defaults_minSize:
  assumes "applyOptions (defaults L) c = Inr c'"
  shows "minSize c' = 200"
proof -
  let ?four = "[DeflateCompressionLevel L (zlib_DefaultCompression L),
      GzipCompressionLevel L (gzip_DefaultCompression L),
      BrotliCompressionLevel L (brotli_DefaultCompression L),
      defaultZstandardCompressor L]"
  have d: "defaults L = ?four @ [MinSize DefaultMinSize]"
    by (simp add: defaults_def)
  from assms obtain c1 where "applyOptions ?four c = Inr c1"
    and m: "applyOptions [MinSize DefaultMinSize] c1 = Inr c'"
    unfolding d applyOptions_append by (auto split: sum.splits)
  from m show ?thesis
    by (auto simp: MinSize_def DefaultMinSize_def split: if_splits)
qed

section \<open>Defaults and built-in priorities\<close>

lemmas option_defs =
  DeflateCompressionLevel_def GzipCompressionLevel_def BrotliCompressionLevel_def
  defaultZstandardCompressor_def NewDefaultGzipCompressor_def
  DeflateCompressor_def GzipCompressor_def BrotliCompressor_def ZstandardCompressor_def
  Compressor_def MinSize_def DefaultMinSize_def errorOption_def
  zlib_Encoding_def gzipEncoding_def brotli_Encoding_def zstd_Encoding_def

lemma defaults_config:
  assumes "zlib_New L (zlib_DefaultCompression L) = Inr p1"
    and "cgzip_New L (gzip_DefaultCompression L) = Inr p2"
    and "brotli_New L (brotli_DefaultCompression L) = Inr p3"
    and "zstd_New L = Inr p4"
  shows "applyOptions (defaults L) initial_config =
         Inr \<lparr>minSize = 200, contentTypes = [], blacklist = False, prefer = PreferServer,
              compressor =
                [(''deflate'', \<lparr>comp_provider = p1, priority = - 300\<rparr>),
                 (''gzip'', \<lparr>comp_provider = p2, priority = - 200\<rparr>),
                 (''br'', \<lparr>comp_provider = p3, priority = - 100\<rparr>),
                 (''zstd'', \<lparr>comp_provider = p4, priority = - 50\<rparr>)]\<rparr>"
  using assms by (simp add: defaults_def initial_config_def option_defs)

lemma sample_contrib_defaults:
  "zlib_New sample_contrib (zlib_DefaultCompression sample_contrib) = Inr 1"
  "cgzip_New sample_contrib (gzip_DefaultCompression sample_contrib) = Inr 2"
  "brotli_New sample_contrib (brotli_DefaultCompression sample_contrib) = Inr 3"
  "zstd_New sample_contrib = Inr 4"
  by (simp_all add: sample_contrib_def)

section \<open>Canonical header keys and the Vary header\<close>

lemma char_rep: obtains n :: nat where "c = char_of n" and "n < 256"
  using nat_of_char_less_256 [of c] char_of_char [of c, where ?'a = nat] by metis

lemma to_lower_idem: "to_lower (to_lower c) = to_lower c"
  by (cases c rule: char_rep) (auto simp: to_lower_def is_upper_def)

lemma to_lower_to_upper: "to_lower (to_upper c) = to_lower c"
  by (cases c rule: char_rep) (auto simp: to_lower_def to_upper_def is_upper_def is_lower_def)

lemma canon_byte_via_lower:
  "canon_byte u c = (if u then to_upper (to_lower c) else to_lower c)"
  by (cases c rule: char_rep) (auto simp: canon_byte_def to_lower_def to_upper_def is_upper_def is_lower_def)

lemma to_lower_canon_byte: "to_lower (canon_byte u c) = to_lower c"
  by (simp add: canon_byte_via_lower to_lower_to_upper to_lower_idem)

lemma valid_to_lower: "validHeaderFieldByte (to_lower c) = validHeaderFieldByte c"
  by (cases c rule: char_rep) (auto simp: validHeaderFieldByte_def to_lower_def is_upper_def is_lower_def is_digit_def)

lemma canon_byte_lower: "canon_byte u (to_lower c) = canon_byte u c"
  by (simp add: canon_byte_via_lower to_lower_idem)

lemma canonicalize_lower: "canonicalize u (map to_lower x) = canonicalize u x"
  by (induction x arbitrary: u) (simp_all add: canon_byte_lower)

lemma lower_canonicalize: "map to_lower (canonicalize u x) = map to_lower x"
  by (induction x arbitrary: u) (simp_all add: to_lower_canon_byte)

lemma canonicalize_eq_iff:
  "canonicalize u x = canonicalize u y \<longleftrightarrow> map to_lower x = map to_lower y"
proof
  assume "canonicalize u x = canonicalize u y"
  then have "map to_lower (canonicalize u x) = map to_lower (canonicalize u y)" by simp
  then show "map to_lower x = map to_lower y" by (simp add: lower_canonicalize)
next
  assume "map to_lower x = map to_lower y"
  then have "canonicalize u (map to_lower x) = canonicalize u (map to_lower y)" by simp
  then show "canonicalize u x = canonicalize u y" by (simp add: canonicalize_lower)
qed

lemma valid_lower: "list_all validHeaderFieldByte (map to_lower x) = list_all validHeaderFieldByte x"
  by (induction x) (simp_all add: valid_to_lower)

lemma valid_canonicalize:
  "list_all validHeaderFieldByte (canonicalize u x) = list_all validHeaderFieldByte x"
  using valid_lower [of "canonicalize u x"] valid_lower [of x]
  by (simp add: lower_canonicalize)


lemma CanonicalHeaderKey_idem: "CanonicalHeaderKey (CanonicalHeaderKey s) = CanonicalHeaderKey s"
proof (cases "list_all validHeaderFieldByte s")
  case True
  have "canonicalize True (canonicalize True s) = canonicalize True s"
    by (simp add: canonicalize_eq_iff lower_canonicalize)
  with True show ?thesis by (simp add: CanonicalHeaderKey_def valid_canonicalize)
next
  case False
  then show ?thesis by (simp add: CanonicalHeaderKey_def)
qed

lemma canonical_vary: "CanonicalHeaderKey vary = vary"
  by code_simp

lemma canonical_acceptEncoding: "CanonicalHeaderKey acceptEncoding = acceptEncoding"
  by code_simp


lemma header_Values_Add:
  "header_Values (header_Add h vary v) vary = header_Values h vary @ [v]"
  by (simp add: header_Values_def header_Add_def Let_def canonical_vary update_conv'
      split: option.splits)

lemma header_Values_Add_other:
  "CanonicalHeaderKey k \<noteq> vary \<Longrightarrow> header_Values (header_Add h vary v) k = header_Values h k"
  by (simp add: header_Values_def header_Add_def Let_def canonical_vary update_conv')

lemma list_ex_filter: "list_ex P xs \<longleftrightarrow> 0 < length (filter P xs)"
  by (induction xs) auto

lemma vary_count_addVaryHeader:
  "vary_count (addVaryHeader h val) val = max 1 (vary_count h val)"
proof (cases "list_ex (\<lambda>v. CanonicalHeaderKey v = CanonicalHeaderKey val) (header_Values h vary)")
  case True
  then have "0 < vary_count h val"
    by (simp add: list_ex_filter vary_count_def)
  with True show ?thesis
    by (simp add: addVaryHeader_def Let_def max_def)
next
  case False
  then have "vary_count h val = 0"
    by (simp add: list_ex_filter vary_count_def)
  with False show ?thesis
    by (simp add: addVaryHeader_def Let_def vary_count_def header_Values_Add
        CanonicalHeaderKey_idem)
qed

lemma addVaryHeader_present:
  "list_ex (\<lambda>v. CanonicalHeaderKey v = CanonicalHeaderKey val)
     (header_Values (addVaryHeader h val) vary)"
  using vary_count_addVaryHeader [of h val]
  by (simp add: list_ex_filter vary_count_def)




section \<open>What the middleware does to the headers\<close>

lemma enter_resp_header:
  "resp_header (snd (snd (enter c w s0))) = addVaryHeader (resp_header s0) acceptEncoding"
  by (simp add: enter_def Let_def acquire_def pool_Get_def split: option.splits prod.splits)

lemma enter_no_candidates:
  "candidates c s0 = [] \<Longrightarrow>
   enter c w s0 = (w, None, s0\<lparr>resp_header := addVaryHeader (resp_header s0) acceptEncoding\<rparr>)"
  by (simp add: enter_def Let_def candidates_def)

lemma enter_req_header:
  "candidates c s0 \<noteq> [] \<Longrightarrow>
   req_header (snd (snd (enter c w s0))) = header_Del (req_header s0) range_hdr"
  by (simp add: enter_def Let_def candidates_def acquire_def pool_Get_def
      split: option.splits prod.splits)

lemma ServeHTTP_no_candidates:
  "candidates c s0 = [] \<Longrightarrow>
   ServeHTTP cl c h w s0 = h w (s0\<lparr>resp_header := addVaryHeader (resp_header s0) acceptEncoding\<rparr>)"
  by (simp add: ServeHTTP_def serve_def enter_no_candidates split: prod.splits)

text \<open>
  Claim C9. With at least one compressor configured the middleware is the wrapping one,
  and it adds Vary: Accept-Encoding to the response headers before it negotiates: the state
  every handler starts in holds a Vary value that is Accept-Encoding, and a request whose
  candidate set is empty runs the handler on the original writer with exactly that header
  added.
\<close>

theorem vary_added_before_negotiation:
  assumes "build_config opts = Inr c" and "compressor c \<noteq> []"
  shows "(\<exists>mw. Adapter cl opts = Inr mw \<and> (\<forall>h. mw h = ServeHTTP cl c h))
       \<and> list_ex (\<lambda>v. CanonicalHeaderKey v = acceptEncoding)
           (header_Values (resp_header (snd (snd (enter c w s0)))) vary)
       \<and> (candidates c s0 = [] \<longrightarrow>
            fst (enter c w s0) = w
          \<and> ServeHTTP cl c h w s0
              = h w (s0\<lparr>resp_header := addVaryHeader (resp_header s0) acceptEncoding\<rparr>))"
proof (intro conjI impI)
  show "\<exists>mw. Adapter cl opts = Inr mw \<and> (\<forall>h. mw h = ServeHTTP cl c h)"
    using assms by (simp add: Adapter_def build_config_def)
  show "list_ex (\<lambda>v. CanonicalHeaderKey v = acceptEncoding)
           (header_Values (resp_header (snd (snd (enter c w s0)))) vary)"
    using addVaryHeader_present [of acceptEncoding "resp_header s0"]
    by (simp add: enter_resp_header canonical_acceptEncoding)
next
  assume e: "candidates c s0 = []"
  then show "fst (enter c w s0) = w" by (simp add: enter_no_candidates)
  from e show "ServeHTTP cl c h w s0
      = h w (s0\<lparr>resp_header := addVaryHeader (resp_header s0) acceptEncoding\<rparr>)"
    by (rule ServeHTTP_no_candidates)
qed

theorem vary_added_before_negotiation_witness:
  "build_config [GzipCompressor 2] = Inr gzip_config
   \<and> compressor gzip_config \<noteq> []
   \<and> candidates gzip_config (sample_world [] [(''Accept-Encoding'', [''br''])]) = []
   \<and> ServeHTTP sample_closer gzip_config idle_handler (Underlying False)
        (sample_world [] [(''Accept-Encoding'', [''br''])])
      = (Return (), sample_world [(''Vary'', [''Accept-Encoding''])] [(''Accept-Encoding'', [''br''])])"
proof -
  have b: "build_config [GzipCompressor 2] = Inr gzip_config"
    by (simp add: build_config_def GzipCompressor_def Compressor_def initial_config_def
        gzip_config_def gzipEncoding_def)
  have n: "compressor gzip_config \<noteq> []"
    by (simp add: gzip_config_def)
  have e: "candidates gzip_config (sample_world [] [(''Accept-Encoding'', [''br''])]) = []"
    by code_simp
  have v: "addVaryHeader [] acceptEncoding = [(''Vary'', [''Accept-Encoding''])]"
    by code_simp
  show ?thesis
    using b n e v
      vary_added_before_negotiation [OF b n, of sample_closer "Underlying False"
        "sample_world [] [(''Accept-Encoding'', [''br''])]" idle_handler]
    by (simp add: idle_handler_def sample_world_def)
qed

section \<open>The candidate set\<close>

lemma set_insert_by: "set (insert_by le x xs) = insert x (set xs)"
  by (induction xs) auto

lemma set_order_candidates: "set (order_candidates p accept cs names) = set names"
  by (induction names) (simp_all add: order_candidates_def set_insert_by)

lemma acceptedCompression_sound:
  "set (acceptedCompression accept cs) \<subseteq> fst ` set cs"
  "name \<in> set (acceptedCompression accept cs) \<Longrightarrow> 0 < resolved_quality accept name"
  by (auto simp: acceptedCompression_def)

lemma rejected_not_accepted:
  "map_of accept (map to_lower name) = Some 0 \<Longrightarrow> name \<notin> set (acceptedCompression accept cs)"
  by (simp add: acceptedCompression_def resolved_quality_def)

text \<open>
  Claim C8. For every Accept-Encoding value and every configuration, the candidates are
  registered coding names, each with a resolved client quality above 0; a coding listed
  with quality 0 is not among them; ordering the candidates keeps the same set.
\<close>

theorem candidates_registered_and_accepted:
  "set (acceptedCompression (parseEncodings hdr) (compressor c)) \<subseteq> fst ` set (compressor c)
   \<and> (\<forall>name \<in> set (acceptedCompression (parseEncodings hdr) (compressor c)).
         0 < resolved_quality (parseEncodings hdr) name)
   \<and> (map_of (parseEncodings hdr) (map to_lower name) = Some 0 \<longrightarrow>
         name \<notin> set (acceptedCompression (parseEncodings hdr) (compressor c)))
   \<and> set (negotiate c hdr) = set (acceptedCompression (parseEncodings hdr) (compressor c))"
  using acceptedCompression_sound [where accept = "parseEncodings hdr" and cs = "compressor c"]
    rejected_not_accepted [where accept = "parseEncodings hdr" and name = name
      and cs = "compressor c"]
  by (simp add: negotiate_def Let_def set_order_candidates)

theorem candidates_registered_and_accepted_witness:
  "acceptedCompression (parseEncodings ''gzip;q=0, br;q=0.5, zstd, lzma'') (compressor builtin_config)
     = [''br'', ''zstd'']
   \<and> map_of (parseEncodings ''gzip;q=0, br;q=0.5, zstd, lzma'') (map to_lower ''gzip'') = Some 0
   \<and> ''gzip'' \<notin> set (acceptedCompression (parseEncodings ''gzip;q=0, br;q=0.5, zstd, lzma'')
                         (compressor builtin_config))
   \<and> 0 < resolved_quality (parseEncodings ''gzip;q=0, br;q=0.5, zstd, lzma'') ''br''
   \<and> negotiate gzip_config ''gzip;q=0'' = []"
proof -
  let ?hdr = "''gzip;q=0, br;q=0.5, zstd, lzma''"
  have a: "acceptedCompression (parseEncodings ?hdr) (compressor builtin_config) = [''br'', ''zstd'']"
    by code_simp
  have z: "map_of (parseEncodings ?hdr) (map to_lower ''gzip'') = Some 0"
    by code_simp
  have n: "negotiate gzip_config ''gzip;q=0'' = []"
    by code_simp
  show ?thesis
    using a z n candidates_registered_and_accepted [of ?hdr builtin_config "''gzip''"]
    by simp
qed


section \<open>The wrapper pool\<close>

lemma pool_zeroed_headers [simp]:
  "pool_zeroed (s\<lparr>resp_header := x\<rparr>) = pool_zeroed s"
  "pool_zeroed (s\<lparr>req_header := y\<rparr>) = pool_zeroed s"
  by (simp_all add: pool_zeroed_def)

lemma distinct_remove_nth:
  assumes "distinct xs" and "i < length xs"
  shows "distinct (take i xs @ drop (Suc i) xs)"
    and "xs ! i \<notin> set (take i xs @ drop (Suc i) xs)"
proof -
  have "distinct (take i xs @ xs ! i # drop (Suc i) xs)"
    using assms id_take_nth_drop [of i xs] by metis
  then show "distinct (take i xs @ drop (Suc i) xs)"
    and "xs ! i \<notin> set (take i xs @ drop (Suc i) xs)"
    by auto
qed

lemma set_remove_nth: "set (take i xs @ drop (Suc i) xs) \<subseteq> set xs"
  using set_take_subset [of i xs] set_drop_subset [of "Suc i" xs] by auto

lemma acquire_pool:
  assumes "pool_zeroed s" and "acquire s = (a, s')"
  shows "pool_zeroed s' \<and> a \<notin> set (writerPool s') \<and> a < length (heap s')"
proof (cases "pool_Get s")
  case (Pair g t)
  show ?thesis
  proof (cases g)
    case None
    with Pair have t: "t = s"
      by (auto simp: pool_Get_def split: option.splits if_splits)
    from Pair None assms(2) t
    have a: "a = length (heap s)" and s': "s' = s\<lparr>heap := heap s @ [zero_compressWriter]\<rparr>"
      by (auto simp: acquire_def)
    from assms(1) have "\<forall>b\<in>set (writerPool s). b < length (heap s)"
      by (simp add: pool_zeroed_def list_all_iff)
    with assms(1) show ?thesis
      by (auto simp: a s' pool_zeroed_def list_all_iff nth_append)
  next
    case (Some b)
    with Pair obtain i where i: "i < length (writerPool s)" and b: "b = writerPool s ! i"
      and t: "t = s\<lparr>writerPool := take i (writerPool s) @ drop (Suc i) (writerPool s)\<rparr>"
      by (auto simp: pool_Get_def split: option.splits if_splits)
    from Pair Some assms(2) have a: "a = b" and s': "s' = t"
      by (auto simp: acquire_def)
    from assms(1) have d: "distinct (writerPool s)"
      and z: "\<forall>x\<in>set (writerPool s). x < length (heap s) \<and> heap s ! x = zero_compressWriter"
      by (simp_all add: pool_zeroed_def list_all_iff)
    from i have "b \<in> set (writerPool s)" by (simp add: b)
    with z have "b < length (heap s)" by blast
    moreover from z set_remove_nth [of i "writerPool s"]
    have "\<forall>x\<in>set (take i (writerPool s) @ drop (Suc i) (writerPool s)).
            x < length (heap s) \<and> heap s ! x = zero_compressWriter"
      by blast
    ultimately show ?thesis
      using distinct_remove_nth [OF d i]
      by (simp add: a s' t b pool_zeroed_def list_all_iff)
  qed
qed

lemma update_outside_pool:
  assumes "pool_zeroed s" and "a \<notin> set (writerPool s)" and "a < length (heap s)"
  shows "pool_zeroed (s\<lparr>heap := (heap s)[a := x]\<rparr>)
       \<and> a \<notin> set (writerPool (s\<lparr>heap := (heap s)[a := x]\<rparr>))
       \<and> a < length (heap (s\<lparr>heap := (heap s)[a := x]\<rparr>))"
  using assms by (auto simp: pool_zeroed_def list_all_iff nth_list_update)

lemma touches_only_keeps:
  assumes "touches_only (Some a) s s'" and "pool_zeroed s" and "a \<notin> set (writerPool s)"
    and "a < length (heap s)"
  shows "pool_zeroed s' \<and> a \<notin> set (writerPool s') \<and> a < length (heap s')"
proof -
  from assms(1) have p: "writerPool s' = writerPool s" and l: "length (heap s) \<le> length (heap s')"
    and k: "\<forall>b < length (heap s). b \<noteq> a \<longrightarrow> heap s' ! b = heap s ! b"
    by (simp_all add: touches_only_def)
  from assms(2) have d: "distinct (writerPool s)"
    and z: "\<forall>x\<in>set (writerPool s). x < length (heap s) \<and> heap s ! x = zero_compressWriter"
    by (simp_all add: pool_zeroed_def list_all_iff)
  have "\<forall>x\<in>set (writerPool s). x < length (heap s') \<and> heap s' ! x = zero_compressWriter"
  proof
    fix x assume x: "x \<in> set (writerPool s)"
    with z have xl: "x < length (heap s)" and xz: "heap s ! x = zero_compressWriter" by auto
    from x assms(3) have "x \<noteq> a" by auto
    with k xl have "heap s' ! x = heap s ! x" by simp
    with xl xz l show "x < length (heap s') \<and> heap s' ! x = zero_compressWriter" by simp
  qed
  with d p assms(3,4) l show ?thesis
    by (simp add: pool_zeroed_def list_all_iff)
qed

lemma reset_and_put:
  assumes "pool_zeroed s" and "a \<notin> set (writerPool s)" and "a < length (heap s)"
  shows "pool_zeroed (pool_Put a (s\<lparr>heap := (heap s)[a := zero_compressWriter]\<rparr>))"
  using assms by (auto simp: pool_Put_def pool_zeroed_def list_all_iff nth_list_update)

section \<open>Running the middleware\<close>

lemma Adapter_wraps:
  assumes "build_config opts = Inr c" and "compressor c \<noteq> []"
  shows "Adapter cl opts = Inr (ServeHTTP cl c)"
  using assms by (simp add: Adapter_def build_config_def)

lemma after_handler_deferred:
  "after_handler cl a (r, s) = (case deferred cl a r s of (r', s', evs) \<Rightarrow> (r', s'))"
  by (simp add: after_handler_def deferred_def split: prod.splits outcome.splits)

lemma enter_candidates:
  assumes "candidates c s0 \<noteq> []"
  shows "\<exists>a s1. enter c w s0 =
           (if implementsCloseNotifier w then WrappedCloseNotify a else Wrapped a, Some a, s1)"
  using assms
  by (simp add: enter_def Let_def candidates_def split: prod.splits)

lemma enter_state:
  assumes "enter c w s0 = (w', ga, s1)"
  shows "resp_header s1 = addVaryHeader (resp_header s0) acceptEncoding"
    and "candidates c s0 \<noteq> [] \<Longrightarrow> req_header s1 = header_Del (req_header s0) range_hdr"
  using assms enter_resp_header [of c w s0] enter_req_header [of c s0 w] by simp_all

lemma enter_pool:
  assumes "pool_zeroed s0" and "candidates c s0 \<noteq> []" and "enter c w s0 = (w', Some a, s1)"
  shows "pool_zeroed s1 \<and> a \<notin> set (writerPool s1) \<and> a < length (heap s1)
       \<and> cw_config (heap s1 ! a) = c"
proof -
  let ?t = "s0\<lparr>resp_header := addVaryHeader (resp_header s0) acceptEncoding,
                req_header := header_Del (req_header s0) range_hdr\<rparr>"
  let ?accept = "parseEncodings (header_Get (req_header s0) acceptEncoding)"
  obtain b u where acq: "acquire ?t = (b, u)" by (cases "acquire ?t")
  let ?x = "zero_compressWriter
              \<lparr>cw_ResponseWriter := Some w, cw_config := c, cw_accept := ?accept,
               cw_common := acceptedCompression ?accept (compressor c),
               cw_pool := Some BufPool\<rparr>"
  from assms(2,3) acq have a: "a = b" and s1: "s1 = u\<lparr>heap := (heap u)[b := ?x]\<rparr>"
    by (auto simp: enter_def Let_def candidates_def)
  from assms(1) have "pool_zeroed ?t" by simp
  from acquire_pool [OF this acq]
  have k: "pool_zeroed u" "b \<notin> set (writerPool u)" "b < length (heap u)"
    by simp_all
  from update_outside_pool [OF k, of ?x] k(3) show ?thesis by (simp add: a s1)
qed

lemma serve_wrapped:
  assumes "enter c w s0 = (w', Some a, s1)"
  shows "serve cl c h w s0 =
           (case h w' s1 of
              (r1, s2) \<Rightarrow>
                (case cl a s2 of
                   (Panic p, s3) \<Rightarrow> (Panic p, s3, [EvServe w', EvClose a])
                 | (Return err, s3) \<Rightarrow>
                     (r1, pool_Put a (s3\<lparr>heap := (heap s3)[a := zero_compressWriter]\<rparr>),
                      [EvServe w', EvClose a, EvReset a, EvPut a])))"
  using assms by (simp add: serve_def deferred_def split: prod.splits outcome.splits)

lemma ServeHTTP_wrapped:
  assumes "enter c w s0 = (w', Some a, s1)"
  shows "ServeHTTP cl c h w s0 = after_handler cl a (h w' s1)"
  by (simp add: ServeHTTP_def serve_wrapped [OF assms] after_handler_def
      split: prod.splits outcome.splits)


section \<open>Closing and pooling the wrapper\<close>

lemma close_count_serve:
  assumes "enter c w s0 = (w', Some a, s1)"
  shows "close_count (snd (snd (serve cl c h w s0))) = 1"
  by (simp add: serve_wrapped [OF assms] close_count_def split: prod.splits outcome.splits)

lemma after_handler_pool:
  assumes "pool_zeroed s1" and "a \<notin> set (writerPool s1)" and "a < length (heap s1)"
    and "touches_only (Some a) s1 (snd (h w' s1))"
    and "touches_only (Some a) (snd (h w' s1)) (snd (cl a (snd (h w' s1))))"
  shows "pool_zeroed (snd (after_handler cl a (h w' s1)))
       \<and> (\<forall>err s3. cl a (snd (h w' s1)) = (Return err, s3) \<longrightarrow>
             hd (writerPool (snd (after_handler cl a (h w' s1)))) = a
           \<and> heap (snd (after_handler cl a (h w' s1))) ! a = zero_compressWriter)"
proof -
  obtain r1 s2 where hr: "h w' s1 = (r1, s2)" by (cases "h w' s1")
  obtain cr s3 where cr: "cl a s2 = (cr, s3)" by (cases "cl a s2")
  from assms(4) hr have t1: "touches_only (Some a) s1 s2" by simp
  from assms(5) hr cr have t2: "touches_only (Some a) s2 s3" by simp
  from touches_only_keeps [OF t1 assms(1-3)]
  have k2: "pool_zeroed s2" "a \<notin> set (writerPool s2)" "a < length (heap s2)" by simp_all
  from touches_only_keeps [OF t2 k2]
  have k3: "pool_zeroed s3" "a \<notin> set (writerPool s3)" "a < length (heap s3)" by simp_all
  show ?thesis
  proof (cases cr)
    case (Return err)
    with hr cr have "snd (after_handler cl a (h w' s1))
        = pool_Put a (s3\<lparr>heap := (heap s3)[a := zero_compressWriter]\<rparr>)"
      by (simp add: after_handler_def)
    with reset_and_put [OF k3] k3(3) hr cr show ?thesis
      by (simp add: pool_Put_def)
  next
    case (Panic p)
    with hr cr have "snd (after_handler cl a (h w' s1)) = s3"
      by (simp add: after_handler_def)
    with k3(1) hr cr Panic show ?thesis by simp
  qed
qed

text \<open>
  Claim C2. For a request with a non-empty candidate set there are a wrapper \<open>a\<close> and a
  state \<open>s1\<close> such that, for every handler and every \<^verbatim>\<open>Close\<close>, the middleware runs the
  handler on the wrapper and then \<^verbatim>\<open>Close\<close> on the state the handler leaves, once,
  whether the handler returned or panicked; when \<^verbatim>\<open>Close\<close> returns, the wrapper is
  overwritten with the zero value and then put into the pool, and the handler's outcome
  stands; when \<^verbatim>\<open>Close\<close> itself panics, nothing is put. Hence, when the handler and
  \<^verbatim>\<open>Close\<close> write to no wrapper but the one of this request, a pool of zeroed wrappers
  stays a pool of zeroed wrappers, and the wrapper that is put is zero whatever the
  handler and \<^verbatim>\<open>Close\<close> wrote into it.
\<close>

theorem close_once_then_zeroed_into_pool:
  assumes "candidates c s0 \<noteq> []"
  shows "\<exists>a s1 w'.
           (w' = Wrapped a \<or> w' = WrappedCloseNotify a)
         \<and> enter c w s0 = (w', Some a, s1)
         \<and> (\<forall>cl h. serve cl c h w s0 =
               (case h w' s1 of
                  (r1, s2) \<Rightarrow>
                    (case cl a s2 of
                       (Panic p, s3) \<Rightarrow> (Panic p, s3, [EvServe w', EvClose a])
                     | (Return err, s3) \<Rightarrow>
                         (r1, pool_Put a (s3\<lparr>heap := (heap s3)[a := zero_compressWriter]\<rparr>),
                          [EvServe w', EvClose a, EvReset a, EvPut a]))))
         \<and> (\<forall>cl h. ServeHTTP cl c h w s0 = after_handler cl a (h w' s1))
         \<and> (\<forall>cl h. close_count (snd (snd (serve cl c h w s0))) = 1)
         \<and> (\<forall>cl h. pool_zeroed s0 \<and> handler_frame h \<and> closer_frame cl \<longrightarrow>
               pool_zeroed (snd (ServeHTTP cl c h w s0))
             \<and> (\<forall>err s3. cl a (snd (h w' s1)) = (Return err, s3) \<longrightarrow>
                   hd (writerPool (snd (ServeHTTP cl c h w s0))) = a
                 \<and> heap (snd (ServeHTTP cl c h w s0)) ! a = zero_compressWriter))"
proof -
  from enter_candidates [OF assms, of w] obtain a s1 where
    e: "enter c w s0 = (if implementsCloseNotifier w then WrappedCloseNotify a else Wrapped a, Some a, s1)"
    by blast
  note sh = ServeHTTP_wrapped [OF e]
  note sv = serve_wrapped [OF e]
  let ?w = "if implementsCloseNotifier w then WrappedCloseNotify a else Wrapped a"
  have wa: "?w = Wrapped a \<or> ?w = WrappedCloseNotify a" by simp
  have own: "wrapper_of ?w = Some a" by simp
  have cc: "\<forall>cl h. close_count (snd (snd (serve cl c h w s0))) = 1"
    using close_count_serve [OF e] by simp
  have pool: "pool_zeroed (snd (ServeHTTP cl c h w s0))
             \<and> (\<forall>err s3. cl a (snd (h ?w s1)) = (Return err, s3) \<longrightarrow>
                   hd (writerPool (snd (ServeHTTP cl c h w s0))) = a
                 \<and> heap (snd (ServeHTTP cl c h w s0)) ! a = zero_compressWriter)"
    if "pool_zeroed s0" and "handler_frame h" and "closer_frame cl" for cl h
  proof -
    from enter_pool [OF that(1) assms e]
    have k: "pool_zeroed s1" "a \<notin> set (writerPool s1)" "a < length (heap s1)" by simp_all
    from that(2) own have t1: "touches_only (Some a) s1 (snd (h ?w s1))"
      unfolding handler_frame_def by metis
    from that(3) have t2: "touches_only (Some a) (snd (h ?w s1)) (snd (cl a (snd (h ?w s1))))"
      unfolding closer_frame_def by blast
    from after_handler_pool [where h = h and w' = ?w and cl = cl, OF k t1 t2] show ?thesis
      unfolding sh .
  qed
  show ?thesis
  proof (rule exI [of _ a], rule exI [of _ s1], rule exI [of _ ?w], intro conjI allI impI)
    show "?w = Wrapped a \<or> ?w = WrappedCloseNotify a" by (rule wa)
    show "enter c w s0 = (?w, Some a, s1)" by (rule e)
    show "serve cl c h w s0 =
               (case h ?w s1 of
                  (r1, s2) \<Rightarrow>
                    (case cl a s2 of
                       (Panic p, s3) \<Rightarrow> (Panic p, s3, [EvServe ?w, EvClose a])
                     | (Return err, s3) \<Rightarrow>
                         (r1, pool_Put a (s3\<lparr>heap := (heap s3)[a := zero_compressWriter]\<rparr>),
                          [EvServe ?w, EvClose a, EvReset a, EvPut a])))" for cl h
      by (rule sv)
    show "ServeHTTP cl c h w s0 = after_handler cl a (h ?w s1)" for cl h by (rule sh)
    show "close_count (snd (snd (serve cl c h w s0))) = 1" for cl h
      using cc by simp
  next
    fix cl h
    assume p: "pool_zeroed s0 \<and> handler_frame h \<and> closer_frame cl"
    with pool [of h cl] show "pool_zeroed (snd (ServeHTTP cl c h w s0))" by simp
  next
    fix cl h err s3
    assume p: "pool_zeroed s0 \<and> handler_frame h \<and> closer_frame cl"
      and r: "cl a (snd (h ?w s1)) = (Return err, s3)"
    with pool [of h cl]
    show "hd (writerPool (snd (ServeHTTP cl c h w s0))) = a"
      and "heap (snd (ServeHTTP cl c h w s0)) ! a = zero_compressWriter"
      by blast+
  qed
qed


lemma writing_handler_frame: "handler_frame writing_handler"
  by (auto simp: handler_frame_def writing_handler_def touches_only_def split: option.splits)

lemma recording_closer_frame: "closer_frame recording_closer"
  by (auto simp: closer_frame_def recording_closer_def touches_only_def)

theorem close_once_then_zeroed_into_pool_witness:
  "candidates gzip_config (pooled_world [] [(''Accept-Encoding'', [''gzip''])]) = [''gzip'']
   \<and> pool_zeroed (pooled_world [] [(''Accept-Encoding'', [''gzip''])])
   \<and> handler_frame writing_handler
   \<and> closer_frame recording_closer
   \<and> fst (enter gzip_config (Underlying True) (pooled_world [] [(''Accept-Encoding'', [''gzip''])]))
       = WrappedCloseNotify 0
   \<and> cw_buf (heap (snd (writing_handler (WrappedCloseNotify 0)
         (snd (snd (enter gzip_config (Underlying True)
            (pooled_world [] [(''Accept-Encoding'', [''gzip''])])))))) ! 0) = [104, 105]
   \<and> fst (ServeHTTP recording_closer gzip_config writing_handler (Underlying True)
         (pooled_world [] [(''Accept-Encoding'', [''gzip''])])) = Panic ''handler''
   \<and> resp_header (snd (ServeHTTP recording_closer gzip_config writing_handler (Underlying True)
         (pooled_world [] [(''Accept-Encoding'', [''gzip''])])))
       = [(''Vary'', [''Accept-Encoding'']), (''Content-Type'', [''text/plain'']),
          (''X-Closed'', [''1''])]
   \<and> heap (snd (ServeHTTP recording_closer gzip_config writing_handler (Underlying True)
         (pooled_world [] [(''Accept-Encoding'', [''gzip''])]))) = [zero_compressWriter]
   \<and> writerPool (snd (ServeHTTP recording_closer gzip_config writing_handler (Underlying True)
         (pooled_world [] [(''Accept-Encoding'', [''gzip''])]))) = [0]
   \<and> close_count (snd (snd (serve recording_closer gzip_config writing_handler (Underlying True)
         (pooled_world [] [(''Accept-Encoding'', [''gzip''])])))) = 1
   \<and> pool_zeroed (snd (ServeHTTP recording_closer gzip_config writing_handler (Underlying True)
         (pooled_world [] [(''Accept-Encoding'', [''gzip''])])))"
proof -
  let ?start = "pooled_world [] [(''Accept-Encoding'', [''gzip''])]"
  let ?R = "ServeHTTP recording_closer gzip_config writing_handler (Underlying True) ?start"
  have c: "candidates gzip_config ?start = [''gzip'']" by code_simp
  then have ne: "candidates gzip_config ?start \<noteq> []" by simp
  have p0: "pool_zeroed ?start" by (simp add: pool_zeroed_def pooled_world_def)
  have e1: "fst (enter gzip_config (Underlying True) ?start) = WrappedCloseNotify 0" by code_simp
  have b: "cw_buf (heap (snd (writing_handler (WrappedCloseNotify 0)
         (snd (snd (enter gzip_config (Underlying True) ?start))))) ! 0) = [104, 105]"
    by code_simp
  have r1: "fst ?R = Panic ''handler''" by code_simp
  have r2: "resp_header (snd ?R)
       = [(''Vary'', [''Accept-Encoding'']), (''Content-Type'', [''text/plain'']),
          (''X-Closed'', [''1''])]" by code_simp
  have r3: "heap (snd ?R) = [zero_compressWriter]" by code_simp
  have r4: "writerPool (snd ?R) = [0]" by code_simp
  from close_once_then_zeroed_into_pool [OF ne, of "Underlying True"]
  obtain a s1 w' where
    cc: "\<forall>cl h. close_count (snd (snd (serve cl gzip_config h (Underlying True) ?start))) = 1"
    and pz: "\<forall>cl h. pool_zeroed ?start \<and> handler_frame h \<and> closer_frame cl \<longrightarrow>
               pool_zeroed (snd (ServeHTTP cl gzip_config h (Underlying True) ?start))
             \<and> (\<forall>err s3. cl a (snd (h w' s1)) = (Return err, s3) \<longrightarrow>
                   hd (writerPool (snd (ServeHTTP cl gzip_config h (Underlying True) ?start))) = a
                 \<and> heap (snd (ServeHTTP cl gzip_config h (Underlying True) ?start)) ! a
                     = zero_compressWriter)"
    by blast
  from pz p0 writing_handler_frame recording_closer_frame
  have "pool_zeroed (snd ?R)" by blast
  with c p0 writing_handler_frame recording_closer_frame e1 b r1 r2 r3 r4 cc
  show ?thesis by simp
qed


section \<open>The Range header of the request\<close>

text \<open>
  Claim C4. When the candidate set is not empty, the middleware runs the handler on a state
  in which the request's Range header is deleted and every other request header is as it
  was; when the candidate set is empty, it runs the handler on the original writer and on
  the state it was given, request headers unchanged, with only the Vary value added to the
  response headers.
\<close>

theorem range_removed_iff_candidates:
  "(candidates c s0 \<noteq> [] \<longrightarrow>
      (\<exists>a s1 w'.
          (\<forall>cl h. ServeHTTP cl c h w s0 = after_handler cl a (h w' s1))
        \<and> req_header s1 = header_Del (req_header s0) range_hdr
        \<and> map_of (req_header s1) ''Range'' = None
        \<and> header_Values (req_header s1) ''Range'' = []
        \<and> header_Get (req_header s1) ''Range'' = []
        \<and> (\<forall>k. k \<noteq> ''Range'' \<longrightarrow> map_of (req_header s1) k = map_of (req_header s0) k)))
   \<and> (candidates c s0 = [] \<longrightarrow>
        (\<forall>cl h. ServeHTTP cl c h w s0
           = h w (s0\<lparr>resp_header := addVaryHeader (resp_header s0) acceptEncoding\<rparr>))
      \<and> req_header (s0\<lparr>resp_header := addVaryHeader (resp_header s0) acceptEncoding\<rparr>)
          = req_header s0)"
proof (intro conjI impI)
  assume ne: "candidates c s0 \<noteq> []"
  from enter_candidates [OF ne, of w] obtain a s1 where
    e: "enter c w s0 = (if implementsCloseNotifier w then WrappedCloseNotify a else Wrapped a, Some a, s1)"
    by blast
  have r: "CanonicalHeaderKey ''Range'' = ''Range''" by code_simp
  have d: "req_header s1 = header_Del (req_header s0) range_hdr"
    using enter_state(2) [OF e ne] .
  have n: "map_of (req_header s1) ''Range'' = None"
    by (simp add: d header_Del_def range_hdr_def r delete_conv')
  show "\<exists>a s1 w'.
          (\<forall>cl h. ServeHTTP cl c h w s0 = after_handler cl a (h w' s1))
        \<and> req_header s1 = header_Del (req_header s0) range_hdr
        \<and> map_of (req_header s1) ''Range'' = None
        \<and> header_Values (req_header s1) ''Range'' = []
        \<and> header_Get (req_header s1) ''Range'' = []
        \<and> (\<forall>k. k \<noteq> ''Range'' \<longrightarrow> map_of (req_header s1) k = map_of (req_header s0) k)"
  proof (rule exI [of _ a], rule exI [of _ s1],
      rule exI [of _ "if implementsCloseNotifier w then WrappedCloseNotify a else Wrapped a"],
      intro conjI allI impI)
    show "ServeHTTP cl c h w s0 = after_handler cl a
            (h (if implementsCloseNotifier w then WrappedCloseNotify a else Wrapped a) s1)"
      for cl h
      by (rule ServeHTTP_wrapped [OF e])
    show "req_header s1 = header_Del (req_header s0) range_hdr" by (rule d)
    show "map_of (req_header s1) ''Range'' = None" by (rule n)
    from n show "header_Values (req_header s1) ''Range'' = []"
      by (simp add: header_Values_def r)
    from n show "header_Get (req_header s1) ''Range'' = []"
      by (simp add: header_Get_def r)
    show "map_of (req_header s1) k = map_of (req_header s0) k" if "k \<noteq> ''Range''" for k
      using that by (simp add: d header_Del_def range_hdr_def r delete_conv')
  qed
next
  assume e: "candidates c s0 = []"
  show "\<forall>cl h. ServeHTTP cl c h w s0
           = h w (s0\<lparr>resp_header := addVaryHeader (resp_header s0) acceptEncoding\<rparr>)"
    using ServeHTTP_no_candidates [OF e] by simp
next
  show "req_header (s0\<lparr>resp_header := addVaryHeader (resp_header s0) acceptEncoding\<rparr>)
          = req_header s0"
    by simp
qed

theorem range_removed_iff_candidates_witness:
  "candidates builtin_config
     (sample_world [] [(''Accept-Encoding'', [''br'']), (''Range'', [''bytes=0-99''])]) = [''br'']
   \<and> resp_header (snd (ServeHTTP sample_closer builtin_config range_probe (Underlying False)
        (sample_world [] [(''Accept-Encoding'', [''br'']), (''Range'', [''bytes=0-99''])])))
      = [(''Vary'', [''Accept-Encoding'']), (''X-Range-Seen'', [''''])]
   \<and> req_header (snd (ServeHTTP sample_closer builtin_config range_probe (Underlying False)
        (sample_world [] [(''Accept-Encoding'', [''br'']), (''Range'', [''bytes=0-99''])])))
      = [(''Accept-Encoding'', [''br''])]
   \<and> candidates builtin_config
        (sample_world [] [(''Accept-Encoding'', [''identity'']), (''Range'', [''bytes=0-99''])]) = []
   \<and> ServeHTTP sample_closer builtin_config range_probe (Underlying False)
        (sample_world [] [(''Accept-Encoding'', [''identity'']), (''Range'', [''bytes=0-99''])])
      = range_probe (Underlying False)
          (sample_world [(''Vary'', [''Accept-Encoding''])]
             [(''Accept-Encoding'', [''identity'']), (''Range'', [''bytes=0-99''])])
   \<and> resp_header (snd (range_probe (Underlying False)
          (sample_world [(''Vary'', [''Accept-Encoding''])]
             [(''Accept-Encoding'', [''identity'']), (''Range'', [''bytes=0-99''])])))
      = [(''Vary'', [''Accept-Encoding'']), (''X-Range-Seen'', [''bytes=0-99''])]"
proof -
  let ?one = "sample_world [] [(''Accept-Encoding'', [''br'']), (''Range'', [''bytes=0-99''])]"
  let ?two = "sample_world [] [(''Accept-Encoding'', [''identity'']), (''Range'', [''bytes=0-99''])]"
  let ?w = "Underlying False"
  have c1: "candidates builtin_config ?one = [''br'']" by code_simp
  have c2: "candidates builtin_config ?two = []" by code_simp
  have v: "addVaryHeader [] acceptEncoding = [(''Vary'', [''Accept-Encoding''])]" by code_simp
  have p1: "resp_header (snd (ServeHTTP sample_closer builtin_config range_probe ?w ?one))
      = [(''Vary'', [''Accept-Encoding'']), (''X-Range-Seen'', [''''])]" by code_simp
  have p2: "req_header (snd (ServeHTTP sample_closer builtin_config range_probe ?w ?one))
      = [(''Accept-Encoding'', [''br''])]" by code_simp
  have p3: "resp_header (snd (range_probe ?w
          (sample_world [(''Vary'', [''Accept-Encoding''])]
             [(''Accept-Encoding'', [''identity'']), (''Range'', [''bytes=0-99''])])))
      = [(''Vary'', [''Accept-Encoding'']), (''X-Range-Seen'', [''bytes=0-99''])]" by code_simp
  from range_removed_iff_candidates [of builtin_config ?two ?w] c2
  have "ServeHTTP sample_closer builtin_config range_probe ?w ?two
        = range_probe ?w (?two\<lparr>resp_header := addVaryHeader (resp_header ?two) acceptEncoding\<rparr>)"
    by blast
  then have p4: "ServeHTTP sample_closer builtin_config range_probe ?w ?two
      = range_probe ?w
          (sample_world [(''Vary'', [''Accept-Encoding''])]
             [(''Accept-Encoding'', [''identity'']), (''Range'', [''bytes=0-99''])])"
    by (simp add: sample_world_def v)
  from c1 c2 p1 p2 p3 p4 show ?thesis by simp
qed


section \<open>The Vary header of the response\<close>












section \<open>The minimum size and the defaults\<close>

lemma DefaultAdapter_wraps:
  assumes "build_config (defaults L @ opts) = Inr c" and "compressor c \<noteq> []"
  shows "DefaultAdapter cl L opts = Inr (ServeHTTP cl c)"
  using Adapter_wraps [OF assms] by (simp add: DefaultAdapter_def)

lemma wrapper_carries_config:
  assumes "pool_zeroed s0" and "candidates c s0 \<noteq> []"
  shows "\<exists>a s1 w'. (\<forall>cl h. ServeHTTP cl c h w s0 = after_handler cl a (h w' s1))
                   \<and> cw_config (heap s1 ! a) = c"
proof -
  from enter_candidates [OF assms(2), of w] obtain a s1 where
    e: "enter c w s0 = (if implementsCloseNotifier w then WrappedCloseNotify a else Wrapped a, Some a, s1)"
    by blast
  from enter_pool [OF assms e] have "cw_config (heap s1 ! a) = c" by simp
  with ServeHTTP_wrapped [OF e] show ?thesis by blast
qed

text \<open>
  Claim C6, as amended. The default of 200 is applied by \<^verbatim>\<open>DefaultAdapter\<close> alone, as the
  last of its defaults. With caller options that leave the minimum size as it is (no
  \<^verbatim>\<open>MinSize\<close> among them) and at least one coding registered, \<^verbatim>\<open>DefaultAdapter\<close> returns
  the middleware of a configuration whose minimum size is \<^verbatim>\<open>DefaultMinSize\<close> = 200, and
  \<^verbatim>\<open>Adapter\<close> returns the middleware of a configuration whose minimum size is 0, the zero
  value of the field; the wrapper that the middleware hands to the handler carries that
  configuration.
\<close>

theorem minSize_default_only_in_DefaultAdapter:
  assumes "\<forall>opt\<in>set opts. keeps_minSize opt"
  shows "(build_config opts = Inr c \<and> compressor c \<noteq> [] \<longrightarrow>
            Adapter cl opts = Inr (ServeHTTP cl c) \<and> minSize c = 0
          \<and> (pool_zeroed s0 \<and> candidates c s0 \<noteq> [] \<longrightarrow>
               (\<exists>a s1 w'. (\<forall>h. ServeHTTP cl c h w s0 = after_handler cl a (h w' s1))
                         \<and> minSize (cw_config (heap s1 ! a)) = 0)))
       \<and> (build_config (defaults L @ opts) = Inr c' \<and> compressor c' \<noteq> [] \<longrightarrow>
            DefaultAdapter cl L opts = Inr (ServeHTTP cl c') \<and> minSize c' = DefaultMinSize
          \<and> (pool_zeroed s0 \<and> candidates c' s0 \<noteq> [] \<longrightarrow>
               (\<exists>a s1 w'. (\<forall>h. ServeHTTP cl c' h w s0 = after_handler cl a (h w' s1))
                         \<and> minSize (cw_config (heap s1 ! a)) = DefaultMinSize)))
       \<and> DefaultMinSize = 200"
proof (intro conjI impI)
  assume b: "build_config opts = Inr c \<and> compressor c \<noteq> []"
  then show "Adapter cl opts = Inr (ServeHTTP cl c)"
    using Adapter_wraps by blast
  from b show m: "minSize c = 0"
    using applyOptions_keeps_minSize [OF assms, of initial_config c]
    by (simp add: build_config_def initial_config_def)
  assume "pool_zeroed s0 \<and> candidates c s0 \<noteq> []"
  then obtain a s1 w' where "\<forall>cl h. ServeHTTP cl c h w s0 = after_handler cl a (h w' s1)"
    and "cw_config (heap s1 ! a) = c"
    using wrapper_carries_config [of s0 c w] by blast
  with m show "\<exists>a s1 w'. (\<forall>h. ServeHTTP cl c h w s0 = after_handler cl a (h w' s1))
                         \<and> minSize (cw_config (heap s1 ! a)) = 0"
    by auto
next
  assume b: "build_config (defaults L @ opts) = Inr c' \<and> compressor c' \<noteq> []"
  then show "DefaultAdapter cl L opts = Inr (ServeHTTP cl c')"
    using DefaultAdapter_wraps by blast
  from b obtain c1 where a: "applyOptions (defaults L) initial_config = Inr c1"
    and o: "applyOptions opts c1 = Inr c'"
    by (auto simp: build_config_def applyOptions_append split: sum.splits)
  from applyOptions_keeps_minSize [OF assms o] defaults_minSize [OF a]
  show m: "minSize c' = DefaultMinSize" by (simp add: DefaultMinSize_def)
  assume "pool_zeroed s0 \<and> candidates c' s0 \<noteq> []"
  then obtain a s1 w' where "\<forall>cl h. ServeHTTP cl c' h w s0 = after_handler cl a (h w' s1)"
    and "cw_config (heap s1 ! a) = c'"
    using wrapper_carries_config [of s0 c' w] by blast
  with m show "\<exists>a s1 w'. (\<forall>h. ServeHTTP cl c' h w s0 = after_handler cl a (h w' s1))
                         \<and> minSize (cw_config (heap s1 ! a)) = DefaultMinSize"
    by auto
next
  show "DefaultMinSize = 200" by (simp add: DefaultMinSize_def)
qed

text \<open>
  The claim as stated fails for \<^verbatim>\<open>Adapter\<close>: with a gzip compressor and no \<^verbatim>\<open>MinSize\<close>
  option it returns the middleware of a configuration whose minimum size is 0, and the
  wrapper handed to the handler carries the minimum size 0.
\<close>

theorem adapter_minSize_counterexample:
  "Adapter sample_closer [GzipCompressor 2] = Inr (ServeHTTP sample_closer gzip_config)
   \<and> minSize gzip_config = 0
   \<and> minSize gzip_config \<noteq> 200
   \<and> minSize (cw_config (heap (snd (snd (enter gzip_config (Underlying False)
        (sample_world [] [(''Accept-Encoding'', [''gzip''])])))) ! 0)) = 0"
proof -
  have "build_config [GzipCompressor 2] = Inr gzip_config"
    by (simp add: build_config_def GzipCompressor_def Compressor_def initial_config_def
        gzip_config_def gzipEncoding_def)
  moreover have "compressor gzip_config \<noteq> []" by (simp add: gzip_config_def)
  ultimately have "Adapter sample_closer [GzipCompressor 2] = Inr (ServeHTTP sample_closer gzip_config)"
    by (rule Adapter_wraps)
  moreover have "minSize (cw_config (heap (snd (snd (enter gzip_config (Underlying False)
        (sample_world [] [(''Accept-Encoding'', [''gzip''])])))) ! 0)) = 0"
    by code_simp
  ultimately show ?thesis by (simp add: gzip_config_def)
qed

theorem minSize_default_only_in_DefaultAdapter_witness:
  "keeps_minSize (GzipCompressor 7)
   \<and> build_config [GzipCompressor 7] = Inr (initial_config\<lparr>compressor := [(''gzip'', \<lparr>comp_provider = 7, priority = - 200\<rparr>)]\<rparr>)
   \<and> Adapter sample_closer [GzipCompressor 7]
       = Inr (ServeHTTP sample_closer (initial_config\<lparr>compressor := [(''gzip'', \<lparr>comp_provider = 7, priority = - 200\<rparr>)]\<rparr>))
   \<and> minSize (initial_config\<lparr>compressor := [(''gzip'', \<lparr>comp_provider = 7, priority = - 200\<rparr>)]\<rparr>) = 0
   \<and> build_config (defaults sample_contrib @ [GzipCompressor 7])
       = Inr (builtin_config\<lparr>compressor := four_codings 1 7 3 4\<rparr>)
   \<and> DefaultAdapter sample_closer sample_contrib [GzipCompressor 7]
       = Inr (ServeHTTP sample_closer (builtin_config\<lparr>compressor := four_codings 1 7 3 4\<rparr>))
   \<and> minSize (builtin_config\<lparr>compressor := four_codings 1 7 3 4\<rparr>) = 200"
proof -
  let ?c = "initial_config\<lparr>compressor := [(''gzip'', \<lparr>comp_provider = 7, priority = - 200\<rparr>)]\<rparr>"
  let ?d = "builtin_config\<lparr>compressor := four_codings 1 7 3 4\<rparr>"
  have k: "\<forall>opt\<in>set [GzipCompressor 7]. keeps_minSize opt"
    by (simp add: builtin_keep_minSize)
  have a: "build_config [GzipCompressor 7] = Inr ?c"
    by (simp add: build_config_def GzipCompressor_def Compressor_def initial_config_def
        gzipEncoding_def)
  have b: "build_config (defaults sample_contrib @ [GzipCompressor 7]) = Inr ?d"
    by (simp add: build_config_def defaults_def sample_contrib_def initial_config_def
        option_defs builtin_config_def four_codings_def)
  have n1: "compressor ?c \<noteq> []" by simp
  have n2: "compressor ?d \<noteq> []" by (simp add: four_codings_def)
  from minSize_default_only_in_DefaultAdapter
    [OF k, where c = ?c and c' = ?d and L = sample_contrib and cl = sample_closer
       and ?s0.0 = "sample_world [] []" and w = "Underlying False"]
    a b n1 n2
  have "Adapter sample_closer [GzipCompressor 7] = Inr (ServeHTTP sample_closer ?c)"
    and "minSize ?c = 0"
    and "DefaultAdapter sample_closer sample_contrib [GzipCompressor 7] = Inr (ServeHTTP sample_closer ?d)"
    and "minSize ?d = 200"
    by simp_all
  with k a b show ?thesis by (simp add: initial_config_def)
qed


text \<open>
  Claim C10. When the constructors of the contrib packages succeed at the library-default
  levels, \<^verbatim>\<open>DefaultAdapter\<close> with no options returns the middleware of the configuration
  that registers exactly the four codings deflate (-300), gzip (-200), br (-100) and zstd
  (-50), each with the provider built at the default level, and has the minimum size 200.
  Caller options are appended to the defaults, so they are applied to that configuration
  and override it: \<^verbatim>\<open>DefaultAdapter\<close> returns the middleware of the configuration they
  lead to, or their error; an appended \<^verbatim>\<open>MinSize\<close> and \<^verbatim>\<open>GzipCompressor\<close> replace the
  default minimum size and gzip provider.
\<close>

theorem DefaultAdapter_defaults:
  assumes "zlib_New L (zlib_DefaultCompression L) = Inr p1"
    and "cgzip_New L (gzip_DefaultCompression L) = Inr p2"
    and "brotli_New L (brotli_DefaultCompression L) = Inr p3"
    and "zstd_New L = Inr p4"
  shows "DefaultAdapter cl L [] =
           Inr (ServeHTTP cl
                  \<lparr>minSize = 200, contentTypes = [], blacklist = False, prefer = PreferServer,
                   compressor =
                     [(''deflate'', \<lparr>comp_provider = p1, priority = - 300\<rparr>),
                      (''gzip'', \<lparr>comp_provider = p2, priority = - 200\<rparr>),
                      (''br'', \<lparr>comp_provider = p3, priority = - 100\<rparr>),
                      (''zstd'', \<lparr>comp_provider = p4, priority = - 50\<rparr>)]\<rparr>)
       \<and> build_config (defaults L) =
           Inr \<lparr>minSize = 200, contentTypes = [], blacklist = False, prefer = PreferServer,
                compressor = four_codings p1 p2 p3 p4\<rparr>
       \<and> DefaultAdapter cl L opts = Adapter cl (defaults L @ opts)
       \<and> build_config (defaults L @ opts) =
           applyOptions opts
             \<lparr>minSize = 200, contentTypes = [], blacklist = False, prefer = PreferServer,
              compressor = four_codings p1 p2 p3 p4\<rparr>
       \<and> (applyOptions opts
             \<lparr>minSize = 200, contentTypes = [], blacklist = False, prefer = PreferServer,
              compressor = four_codings p1 p2 p3 p4\<rparr> = Inr c' \<and> compressor c' \<noteq> [] \<longrightarrow>
           DefaultAdapter cl L opts = Inr (ServeHTTP cl c'))
       \<and> (applyOptions opts
             \<lparr>minSize = 200, contentTypes = [], blacklist = False, prefer = PreferServer,
              compressor = four_codings p1 p2 p3 p4\<rparr> = Inl err \<longrightarrow>
           DefaultAdapter cl L opts = Inl err)
       \<and> DefaultAdapter cl L [MinSize 1024, GzipCompressor g] =
           Inr (ServeHTTP cl
                  \<lparr>minSize = 1024, contentTypes = [], blacklist = False, prefer = PreferServer,
                   compressor =
                     [(''deflate'', \<lparr>comp_provider = p1, priority = - 300\<rparr>),
                      (''gzip'', \<lparr>comp_provider = g, priority = - 200\<rparr>),
                      (''br'', \<lparr>comp_provider = p3, priority = - 100\<rparr>),
                      (''zstd'', \<lparr>comp_provider = p4, priority = - 50\<rparr>)]\<rparr>)"
proof -
  let ?d = "\<lparr>minSize = 200, contentTypes = [], blacklist = False, prefer = PreferServer,
             compressor = four_codings p1 p2 p3 p4\<rparr>"
  from defaults_config [OF assms]
  have d: "applyOptions (defaults L) initial_config = Inr ?d"
    by (simp add: four_codings_def)
  have b: "build_config (defaults L @ opts) = applyOptions opts ?d" for opts
    using d by (simp add: build_config_def applyOptions_append)
  have n: "compressor ?d \<noteq> []" by (simp add: four_codings_def)
  have w: "DefaultAdapter cl L opts = Inr (ServeHTTP cl c')"
    if "applyOptions opts ?d = Inr c' \<and> compressor c' \<noteq> []" for opts c'
    using that b [of opts] DefaultAdapter_wraps [of L opts c' cl] by simp
  have e: "DefaultAdapter cl L opts = Inl err" if "applyOptions opts ?d = Inl err"
    using that b [of opts] by (simp add: DefaultAdapter_def Adapter_def build_config_def)
  have o: "applyOptions [MinSize 1024, GzipCompressor g] ?d =
      Inr \<lparr>minSize = 1024, contentTypes = [], blacklist = False, prefer = PreferServer,
                   compressor =
                     [(''deflate'', \<lparr>comp_provider = p1, priority = - 300\<rparr>),
                      (''gzip'', \<lparr>comp_provider = g, priority = - 200\<rparr>),
                      (''br'', \<lparr>comp_provider = p3, priority = - 100\<rparr>),
                      (''zstd'', \<lparr>comp_provider = p4, priority = - 50\<rparr>)]\<rparr>"
    by (simp add: MinSize_def GzipCompressor_def Compressor_def gzipEncoding_def
        four_codings_def)
  have "build_config (defaults L) = Inr ?d"
    using b [of "[]"] by simp
  moreover have "DefaultAdapter cl L [] = Inr (ServeHTTP cl ?d)"
    using w [of "[]" ?d] n by simp
  moreover have "DefaultAdapter cl L opts = Adapter cl (defaults L @ opts)"
    by (simp add: DefaultAdapter_def)
  moreover have "DefaultAdapter cl L [MinSize 1024, GzipCompressor g] =
           Inr (ServeHTTP cl
                  \<lparr>minSize = 1024, contentTypes = [], blacklist = False, prefer = PreferServer,
                   compressor =
                     [(''deflate'', \<lparr>comp_provider = p1, priority = - 300\<rparr>),
                      (''gzip'', \<lparr>comp_provider = g, priority = - 200\<rparr>),
                      (''br'', \<lparr>comp_provider = p3, priority = - 100\<rparr>),
                      (''zstd'', \<lparr>comp_provider = p4, priority = - 50\<rparr>)]\<rparr>)"
    by (rule w, rule conjI, rule o) simp
  ultimately show ?thesis
    using b [of opts] w [of opts c'] e by (simp add: four_codings_def)
qed

theorem DefaultAdapter_defaults_witness:
  "zlib_New sample_contrib (zlib_DefaultCompression sample_contrib) = Inr 1
   \<and> cgzip_New sample_contrib (gzip_DefaultCompression sample_contrib) = Inr 2
   \<and> brotli_New sample_contrib (brotli_DefaultCompression sample_contrib) = Inr 3
   \<and> zstd_New sample_contrib = Inr 4
   \<and> DefaultAdapter sample_closer sample_contrib [] = Inr (ServeHTTP sample_closer builtin_config)
   \<and> build_config (defaults sample_contrib) = Inr builtin_config
   \<and> minSize (cw_config (heap (snd (snd (enter builtin_config (Underlying False)
        (sample_world [] [(''Accept-Encoding'', [''gzip''])])))) ! 0)) = 200
   \<and> map fst (compressor (cw_config (heap (snd (snd (enter builtin_config (Underlying False)
        (sample_world [] [(''Accept-Encoding'', [''gzip''])])))) ! 0)))
      = [''deflate'', ''gzip'', ''br'', ''zstd'']"
proof -
  have m: "minSize (cw_config (heap (snd (snd (enter builtin_config (Underlying False)
        (sample_world [] [(''Accept-Encoding'', [''gzip''])])))) ! 0)) = 200"
    by code_simp
  have f: "map fst (compressor (cw_config (heap (snd (snd (enter builtin_config (Underlying False)
        (sample_world [] [(''Accept-Encoding'', [''gzip''])])))) ! 0)))
      = [''deflate'', ''gzip'', ''br'', ''zstd'']"
    by code_simp
  show ?thesis
    using sample_contrib_defaults m f
      DefaultAdapter_defaults [OF sample_contrib_defaults,
        where cl = sample_closer and opts = "[]" and g = 9
          and c' = builtin_config and err = "ErrProvider ''none''"]
    by (simp add: builtin_config_def four_codings_def)
qed

text \<open>
  Claim C7. The built-in coding options register deflate with priority -300, gzip with
  -200, br with -100 and zstd with -50. Under \<^verbatim>\<open>PreferServer\<close>, which orders candidates by
  descending priority, these constants put deflate, gzip, brotli, zstd in that order of
  increasing preference: each coding of the list is preferred to the one before it,
  whatever the client's qualities, so the candidates among them come out in the reverse of
  the list, zstd first.
\<close>

theorem builtin_priorities_order:
  "DeflateCompressor g c =
     Inr (c\<lparr>compressor := AList.update ''deflate'' \<lparr>comp_provider = g, priority = - 300\<rparr> (compressor c)\<rparr>)
   \<and> GzipCompressor g c =
     Inr (c\<lparr>compressor := AList.update ''gzip'' \<lparr>comp_provider = g, priority = - 200\<rparr> (compressor c)\<rparr>)
   \<and> BrotliCompressor g c =
     Inr (c\<lparr>compressor := AList.update ''br'' \<lparr>comp_provider = g, priority = - 100\<rparr> (compressor c)\<rparr>)
   \<and> ZstandardCompressor g c =
     Inr (c\<lparr>compressor := AList.update ''zstd'' \<lparr>comp_provider = g, priority = - 50\<rparr> (compressor c)\<rparr>)
   \<and> build_config [DeflateCompressor p1, GzipCompressor p2, BrotliCompressor p3,
                    ZstandardCompressor p4]
       = Inr (initial_config\<lparr>compressor := four_codings p1 p2 p3 p4\<rparr>)
   \<and> Adapter cl [DeflateCompressor p1, GzipCompressor p2, BrotliCompressor p3,
                 ZstandardCompressor p4]
       = Inr (ServeHTTP cl (initial_config\<lparr>compressor := four_codings p1 p2 p3 p4\<rparr>))
   \<and> prefer initial_config = PreferServer
   \<and> comes_before PreferServer accept (four_codings p1 p2 p3 p4) ''gzip'' ''deflate''
   \<and> comes_before PreferServer accept (four_codings p1 p2 p3 p4) ''br'' ''gzip''
   \<and> comes_before PreferServer accept (four_codings p1 p2 p3 p4) ''zstd'' ''br''
   \<and> order_candidates PreferServer accept (four_codings p1 p2 p3 p4)
        (acceptedCompression accept (four_codings p1 p2 p3 p4))
      = filter (\<lambda>name. 0 < resolved_quality accept name)
          (rev [''deflate'', ''gzip'', ''br'', ''zstd''])"
proof -
  have b: "build_config [DeflateCompressor p1, GzipCompressor p2, BrotliCompressor p3,
                    ZstandardCompressor p4]
       = Inr (initial_config\<lparr>compressor := four_codings p1 p2 p3 p4\<rparr>)"
    by (simp add: build_config_def initial_config_def option_defs four_codings_def)
  have "compressor (initial_config\<lparr>compressor := four_codings p1 p2 p3 p4\<rparr>) \<noteq> []"
    by (simp add: four_codings_def)
  with b have a: "Adapter cl [DeflateCompressor p1, GzipCompressor p2, BrotliCompressor p3,
                 ZstandardCompressor p4]
       = Inr (ServeHTTP cl (initial_config\<lparr>compressor := four_codings p1 p2 p3 p4\<rparr>))"
    by (rule Adapter_wraps)
  have o: "order_candidates PreferServer accept (four_codings p1 p2 p3 p4)
        (acceptedCompression accept (four_codings p1 p2 p3 p4))
      = filter (\<lambda>name. 0 < resolved_quality accept name)
          (rev [''deflate'', ''gzip'', ''br'', ''zstd''])"
    by (simp add: order_candidates_def acceptedCompression_def comes_before_def priority_of_def
        to_lower_def is_upper_def four_codings_def)
  have cb: "comes_before PreferServer accept (four_codings p1 p2 p3 p4) ''gzip'' ''deflate''"
    "comes_before PreferServer accept (four_codings p1 p2 p3 p4) ''br'' ''gzip''"
    "comes_before PreferServer accept (four_codings p1 p2 p3 p4) ''zstd'' ''br''"
    by (simp_all add: comes_before_def priority_of_def four_codings_def)
  from a b o cb show ?thesis
    by (simp add: option_defs initial_config_def)
qed

theorem builtin_priorities_order_witness:
  "order_candidates PreferServer (parseEncodings ''gzip, deflate, br, zstd'') (compressor builtin_config)
     (acceptedCompression (parseEncodings ''gzip, deflate, br, zstd'') (compressor builtin_config))
   = [''zstd'', ''br'', ''gzip'', ''deflate'']
   \<and> order_candidates PreferServer (parseEncodings ''gzip, br'') (compressor builtin_config)
     (acceptedCompression (parseEncodings ''gzip, br'') (compressor builtin_config))
   = [''br'', ''gzip'']"
proof -
  have e1: "filter (\<lambda>name. 0 < resolved_quality (parseEncodings ''gzip, deflate, br, zstd'') name)
             (rev [''deflate'', ''gzip'', ''br'', ''zstd'']) = [''zstd'', ''br'', ''gzip'', ''deflate'']"
    by code_simp
  have e2: "filter (\<lambda>name. 0 < resolved_quality (parseEncodings ''gzip, br'') name)
             (rev [''deflate'', ''gzip'', ''br'', ''zstd'']) = [''br'', ''gzip'']"
    by code_simp
  have c: "compressor builtin_config = four_codings 1 2 3 4"
    by (simp add: builtin_config_def four_codings_def)
  show ?thesis
    using builtin_priorities_order [where accept = "parseEncodings ''gzip, deflate, br, zstd''"
        and ?p1.0 = 1 and ?p2.0 = 2 and ?p3.0 = 3 and ?p4.0 = 4 and g = 0 and c = initial_config
        and cl = sample_closer]
      builtin_priorities_order [where accept = "parseEncodings ''gzip, br''"
        and ?p1.0 = 1 and ?p2.0 = 2 and ?p3.0 = 3 and ?p4.0 = 4 and g = 0 and c = initial_config
        and cl = sample_closer]
      e1 e2 c
    by simp
qed

end
